theory Spec2Isabelle
  imports Complex_Main
begin

section \<open>Strings of the JavaScript runtime\<close>

text \<open>
  A JavaScript string is a sequence of code units and \<open>length\<close> counts them. The model
  uses \<^typ>\<open>string\<close>, one \<^typ>\<open>char\<close> per code unit, which covers the code units
  \<open>0..255\<close>. Among these, \<open>String.prototype.trim\<close> and the regular-expression class
  \<open>\s\<close> treat exactly TAB, LF, VT, FF, CR, SPACE and NBSP as white space.
\<close>

definition is_space :: "char \<Rightarrow> bool" where
  "is_space c \<longleftrightarrow>
     c \<in> set [CHR 0x09, CHR 0x0A, CHR 0x0B, CHR 0x0C, CHR 0x0D, CHR 0x20, CHR 0xA0]"

text \<open>\<open>s.trim()\<close>: white space removed at both ends.\<close>

definition trim :: "string \<Rightarrow> string" where
  "trim s = rev (dropWhile is_space (rev (dropWhile is_space s)))"

text \<open>\<open>parts.join(sep)\<close>.\<close>

fun join :: "string \<Rightarrow> string list \<Rightarrow> string" where
  "join sep [] = []"
| "join sep [x] = x"
| "join sep (x # y # ys) = x @ sep @ join sep (y # ys)"

text \<open>The blank-line separator \<open>'\n\n'\<close>.\<close>

definition blank_line :: string where
  "blank_line = [CHR 0x0A, CHR 0x0A]"

text \<open>
  \<open>text.split('\n\n')\<close>: the text is scanned from the left; at every occurrence of the
  separator the piece collected so far is emitted and the scan resumes behind the
  separator. The first argument is the piece collected so far. The empty text gives one
  empty piece.
\<close>

fun split_blank_line :: "string \<Rightarrow> string \<Rightarrow> string list" where
  "split_blank_line piece [] = [piece]"
| "split_blank_line piece [c] = [piece @ [c]]"
| "split_blank_line piece (c # d # cs) =
     (if c = CHR 0x0A \<and> d = CHR 0x0A then piece # split_blank_line [] cs
      else split_blank_line (piece @ [c]) (d # cs))"

section \<open>The paragraph chunker (src/lib/embeddings.ts, src/lib/projectEmbeddings.ts)\<close>

text \<open>
  The loop \<open>for (const paragraph of paragraphs)\<close> of \<open>chunkText\<close> and
  \<open>chunkProjectText\<close>, on the pair \<open>(chunks, currentChunk)\<close>. The test \<open>&& currentChunk\<close>
  is the truthiness of a string: it is not empty.
\<close>

fun chunk_paragraphs :: "int \<Rightarrow> string list \<Rightarrow> string list \<times> string \<Rightarrow> string list \<times> string" where
  "chunk_paragraphs maxChunkSize [] st = st"
| "chunk_paragraphs maxChunkSize (paragraph # ps) (chunks, currentChunk) =
     (if int (length currentChunk) + int (length paragraph) > maxChunkSize \<and> currentChunk \<noteq> []
      then chunk_paragraphs maxChunkSize ps (chunks @ [trim currentChunk], [] @ paragraph @ blank_line)
      else chunk_paragraphs maxChunkSize ps (chunks, currentChunk @ paragraph @ blank_line))"

text \<open>The trailing \<open>if (currentChunk.trim()) chunks.push(currentChunk.trim())\<close>.\<close>

definition flush_paragraphs :: "string list \<times> string \<Rightarrow> string list" where
  "flush_paragraphs st =
     (case st of (chunks, currentChunk) \<Rightarrow>
        if trim currentChunk \<noteq> [] then chunks @ [trim currentChunk] else chunks)"

definition chunkText :: "string \<Rightarrow> int \<Rightarrow> string list" where
  "chunkText text maxChunkSize =
     flush_paragraphs (chunk_paragraphs maxChunkSize (split_blank_line [] text) ([], []))"

text \<open>\<open>chunkProjectText\<close> has the same body as \<open>chunkText\<close>.\<close>

definition chunkProjectText :: "string \<Rightarrow> int \<Rightarrow> string list" where
  "chunkProjectText text maxChunkSize =
     flush_paragraphs (chunk_paragraphs maxChunkSize (split_blank_line [] text) ([], []))"

section \<open>The sentence chunker (the regeneration edge functions)\<close>

text \<open>
  \<open>text.split(/[.!?]+\s+/)\<close>. The two character classes are disjoint, so a match at a
  position is the longest run of \<open>.\<close>, \<open>!\<close>, \<open>?\<close> there followed by the longest run of
  white space, both non-empty; \<open>sentence_break\<close> gives its length.
\<close>

definition is_sentence_end :: "char \<Rightarrow> bool" where
  "is_sentence_end c \<longleftrightarrow> c \<in> set [CHR ''.'', CHR ''!'', CHR ''?'']"

definition sentence_break :: "string \<Rightarrow> nat option" where
  "sentence_break s =
     (let n = length (takeWhile is_sentence_end s);
          k = length (takeWhile is_space (drop n s))
      in if 0 < n \<and> 0 < k then Some (n + k) else None)"

function split_sentences :: "string \<Rightarrow> string \<Rightarrow> string list" where
  "split_sentences piece [] = [piece]"
| "split_sentences piece (c # cs) =
     (case sentence_break (c # cs) of
        Some n \<Rightarrow> piece # split_sentences [] (drop n (c # cs))
      | None \<Rightarrow> split_sentences (piece @ [c]) cs)"
  by pat_completeness auto
termination
  by (relation "measure (\<lambda>(piece, s). length s)")
     (auto simp: sentence_break_def Let_def split: if_splits)

text \<open>The loop \<open>for (const sentence of sentences)\<close>, on \<open>(chunks, currentChunk)\<close>.\<close>

fun chunk_sentences :: "int \<Rightarrow> string list \<Rightarrow> string list \<times> string \<Rightarrow> string list \<times> string" where
  "chunk_sentences maxLength [] st = st"
| "chunk_sentences maxLength (sentence # ss) (chunks, currentChunk) =
     (if int (length (currentChunk @ sentence)) \<le> maxLength
      then chunk_sentences maxLength ss (chunks, currentChunk @ sentence @ ''. '')
      else chunk_sentences maxLength ss
             (if currentChunk \<noteq> [] then chunks @ [trim currentChunk] else chunks, sentence @ ''. ''))"

definition edge_chunkText :: "string \<Rightarrow> int \<Rightarrow> string list" where
  "edge_chunkText text maxLength =
     (if int (length text) \<le> maxLength then [text]
      else case chunk_sentences maxLength (split_sentences [] text) ([], []) of
             (chunks, currentChunk) \<Rightarrow>
               if currentChunk \<noteq> [] then chunks @ [trim currentChunk] else chunks)"

section \<open>Values, rows and the world\<close>

text \<open>
  A thrown JavaScript value is an instance of \<open>Error\<close> carrying its message, or some other
  value. \<open>error_message\<close> is the expression
  \<open>error instanceof Error ? error.message : 'Unknown error'\<close> of every catch block.
\<close>

datatype thrown = ErrorObj string | NonError

definition error_message :: "thrown \<Rightarrow> string" where
  "error_message e = (case e of ErrorObj m \<Rightarrow> m | NonError \<Rightarrow> ''Unknown error'')"

text \<open>
  Truthiness of a value of type \<open>string | undefined | null\<close>: defined and not empty.
\<close>

definition truthy :: "string option \<Rightarrow> bool" where
  "truthy s \<longleftrightarrow> (case s of None \<Rightarrow> False | Some v \<Rightarrow> v \<noteq> [])"

text \<open>
  Decimal digits of a number, as \<open>`${response.status}`\<close> and \<open>`${chunks.length}`\<close> print
  them.
\<close>

fun string_of_nat :: "nat \<Rightarrow> string" where
  "string_of_nat n =
     (if n < 10 then [''0123456789'' ! n]
      else string_of_nat (n div 10) @ [''0123456789'' ! (n mod 10)])"

declare string_of_nat.simps [simp del]

type_synonym vec = "real list"

datatype json = JNull | JBool bool | JNumber nat | JString string | JStrings "string list"

type_synonym metadata = "(string \<times> json) list"

datatype content_type =
  company_info | document | additional_context | project_metadata | document_chunk

text \<open>
  \<open>ProjectEmbeddingData\<close> and \<open>CompanyBrainEmbedding\<close> share five fields. The object
  literal handed to \<open>insert\<close> has the fields of the interface, so a row of a table is a
  value of the same record; the columns the database fills in by itself (\<open>id\<close>,
  \<open>created_at\<close>, \<open>updated_at\<close>) are not part of it. An absent optional field is
  \<open>None\<close>.
\<close>

record embedding_fields =
  content_type :: content_type
  content_id :: "string option"
  content :: string
  metadata :: "metadata option"
  embedding :: "vec option"

record ProjectEmbeddingData = embedding_fields +
  project_id :: string
  company_id :: string

record CompanyBrainEmbedding = embedding_fields +
  user_id :: string

text \<open>
  What a run leaves behind: the two embedding tables and the trace of the calls made to
  the console, to the embedding provider and to the database, oldest first.
\<close>

datatype event =
  ConsoleError string | ConsoleWarn string | ConsoleLog string
  | Fetch string | Select string | Insert string | Delete string | Rpc string

record world =
  project_embeddings :: "ProjectEmbeddingData list"
  company_brain_embeddings :: "CompanyBrainEmbedding list"
  trace :: "event list"

definition emit :: "event \<Rightarrow> world \<Rightarrow> world" where
  "emit ev w = w\<lparr>trace := trace w @ [ev]\<rparr>"

section \<open>Computations that return or throw\<close>

datatype 'a outcome = Returns 'a | Throws thrown

type_synonym 'a io = "world \<Rightarrow> 'a outcome \<times> world"

definition return_io :: "'a \<Rightarrow> 'a io" where
  "return_io a w = (Returns a, w)"

definition throw_io :: "thrown \<Rightarrow> 'a io" where
  "throw_io e w = (Throws e, w)"

text \<open>Sequencing: a throw skips the rest.\<close>

definition bind_io :: "'a io \<Rightarrow> ('a \<Rightarrow> 'b io) \<Rightarrow> 'b io" where
  "bind_io m f w = (case m w of (Returns a, w') \<Rightarrow> f a w' | (Throws e, w') \<Rightarrow> (Throws e, w'))"

text \<open>\<open>try { m } catch (e) { h e }\<close>.\<close>

definition try_catch :: "'a io \<Rightarrow> (thrown \<Rightarrow> 'a io) \<Rightarrow> 'a io" where
  "try_catch m h w = (case m w of (Returns a, w') \<Rightarrow> (Returns a, w') | (Throws e, w') \<Rightarrow> h e w')"

text \<open>\<open>for (const x of xs) { ... }\<close> over the loop's local variables \<open>s\<close>.\<close>

fun for_each :: "('a \<Rightarrow> 's \<Rightarrow> 's io) \<Rightarrow> 'a list \<Rightarrow> 's \<Rightarrow> 's io" where
  "for_each f [] s = return_io s"
| "for_each f (x # xs) s = bind_io (f x s) (for_each f xs)"

definition console_error :: "string \<Rightarrow> unit io" where
  "console_error label w = (Returns (), emit (ConsoleError label) w)"

definition console_warn :: "string \<Rightarrow> unit io" where
  "console_warn label w = (Returns (), emit (ConsoleWarn label) w)"

definition console_log :: "string \<Rightarrow> unit io" where
  "console_log label w = (Returns (), emit (ConsoleLog label) w)"

section \<open>The outside: runtime and database client\<close>

text \<open>
  The reply of the embedding provider to one \<open>fetch\<close>: the call throws, or it gives a
  response with \<open>ok\<close>, \<open>status\<close>, \<open>statusText\<close> and a body. Reading
  \<open>(await response.json()).embedding.values\<close> from the body throws (the body is not JSON,
  or it has no \<open>embedding\<close> object), or gives the value found there, \<open>None\<close> when the
  \<open>embedding\<close> object has no \<open>values\<close>.

  Every answer of the outside is a function of the number of calls made so far (the
  length of the trace) and of the call's arguments, so that equal calls may be answered
  differently.
\<close>

datatype response_body = BodyThrows thrown | BodyValues "vec option"

datatype fetch_result = FetchThrows thrown | Response bool nat string response_body

datatype db_result = DbOk | DbError thrown | DbThrows thrown

datatype 'a select_result = SelectData "'a option" | SelectError thrown | SelectThrows thrown

datatype rpc_result = RpcData | RpcNull | RpcError thrown | RpcThrows thrown

text \<open>
  The rows the regeneration jobs read. Their interfaces share field names (\<open>id\<close>,
  \<open>project_id\<close>, \<open>file_name\<close>, ...), so every field carries a prefix for its interface:
  \<open>proj_\<close> for \<open>Project\<close>, \<open>pm_\<close> for \<open>ProjectMetadata\<close>, \<open>pd_\<close> for \<open>ProjectDocument\<close>,
  \<open>cb_\<close> for \<open>CompanyBrain\<close>, \<open>bd_\<close> for \<open>BrainDocument\<close>. A \<open>null\<close> is \<open>None\<close>.
\<close>

record Project =
  proj_id :: string
  proj_company_id :: string
  proj_project_name :: string
  proj_status :: string

record ProjectMetadata =
  pm_id :: string
  pm_project_id :: string
  pm_company_id :: string
  pm_project_description :: "string option"
  pm_project_goals :: "string option"
  pm_target_audience :: "string option"
  pm_budget_range :: "string option"
  pm_timeline :: "string option"
  pm_tech_stack :: "string list option"
  pm_key_features :: "string list option"
  pm_key_goals :: "string list option"
  pm_success_metrics :: "string option"
  pm_constraints :: "string option"
  pm_additional_notes :: "string option"

record ProjectDocument =
  pd_id :: string
  pd_project_id :: string
  pd_company_id :: string
  pd_file_name :: string
  pd_file_type :: string
  pd_description :: "string option"
  pd_tags :: "string list option"
  pd_category :: "string option"
  pd_storage_url :: string

record CompanyBrain =
  cb_id :: string
  cb_user_id :: string
  cb_company_name :: "string option"
  cb_industry :: "string option"
  cb_company_size :: "string option"
  cb_target_market :: "string option"
  cb_key_products :: "string option"
  cb_unique_value_prop :: "string option"
  cb_additional_context :: "string option"

record BrainDocument =
  bd_id :: string
  bd_user_id :: string
  bd_file_name :: string
  bd_file_type :: string
  bd_description :: "string option"
  bd_tags :: "string list option"
  bd_category :: "string option"
  bd_storage_url :: string

text \<open>
  The runtime: the two environment variables holding the provider key
  (\<open>import.meta.env.VITE_GEMINI_API_KEY\<close> in the browser library,
  \<open>Deno.env.get('GEMINI_API_KEY')\<close> in the edge functions), whether \<open>createClient\<close>
  throws, and the provider's answers to \<open>fetch\<close>, by call number and text.
\<close>

record runtime =
  VITE_GEMINI_API_KEY :: "string option"
  GEMINI_API_KEY :: "string option"
  createClient :: "thrown option"
  fetch :: "nat \<Rightarrow> string \<Rightarrow> fetch_result"

text \<open>
  The database client \<open>supabase\<close>, of type \<open>any\<close> in the source: how it answers an
  insert (by call number and row), a delete and an \<open>rpc\<close> (by call number and table or
  function name) and the reads of the regeneration jobs. \<open>DbError e\<close> is a reply
  \<open>{ error: e }\<close>, \<open>DbThrows e\<close> a call that throws.
\<close>

record supabase =
  insert_project_embeddings :: "nat \<Rightarrow> ProjectEmbeddingData \<Rightarrow> db_result"
  insert_company_brain_embeddings :: "nat \<Rightarrow> CompanyBrainEmbedding \<Rightarrow> db_result"
  delete_rows :: "nat \<Rightarrow> string \<Rightarrow> db_result"
  call_rpc :: "nat \<Rightarrow> string \<Rightarrow> rpc_result"
  select_projects :: "nat \<Rightarrow> Project list select_result"
  select_project_metadata :: "nat \<Rightarrow> string \<Rightarrow> ProjectMetadata select_result"
  select_project_documents :: "nat \<Rightarrow> string \<Rightarrow> ProjectDocument list select_result"
  select_company_brain :: "nat \<Rightarrow> CompanyBrain list select_result"
  select_brain_documents :: "nat \<Rightarrow> BrainDocument list select_result"

text \<open>
  \<open>await supabase.from(table).insert(row)\<close> gives the \<open>error\<close> of the reply (\<open>None\<close> for
  \<open>null\<close>) or throws. The row is in the table afterwards exactly when the database
  accepted the statement.
\<close>

definition insert_into_project_embeddings ::
  "supabase \<Rightarrow> ProjectEmbeddingData \<Rightarrow> thrown option io" where
  "insert_into_project_embeddings sb row w =
     (case insert_project_embeddings sb (length (trace w)) row of
        DbOk \<Rightarrow> (Returns None,
                   emit (Insert ''project_embeddings'')
                     (w\<lparr>project_embeddings := project_embeddings w @ [row]\<rparr>))
      | DbError e \<Rightarrow> (Returns (Some e), emit (Insert ''project_embeddings'') w)
      | DbThrows e \<Rightarrow> (Throws e, emit (Insert ''project_embeddings'') w))"

definition insert_into_company_brain_embeddings ::
  "supabase \<Rightarrow> CompanyBrainEmbedding \<Rightarrow> thrown option io" where
  "insert_into_company_brain_embeddings sb row w =
     (case insert_company_brain_embeddings sb (length (trace w)) row of
        DbOk \<Rightarrow> (Returns None,
                   emit (Insert ''company_brain_embeddings'')
                     (w\<lparr>company_brain_embeddings := company_brain_embeddings w @ [row]\<rparr>))
      | DbError e \<Rightarrow> (Returns (Some e), emit (Insert ''company_brain_embeddings'') w)
      | DbThrows e \<Rightarrow> (Throws e, emit (Insert ''company_brain_embeddings'') w))"

text \<open>
  \<open>await supabase.from(table).delete().eq(...)\<close>: the rows matching the filters are gone
  exactly when the database accepted the statement.
\<close>

definition delete_from_project_embeddings ::
  "supabase \<Rightarrow> (ProjectEmbeddingData \<Rightarrow> bool) \<Rightarrow> thrown option io" where
  "delete_from_project_embeddings sb matches w =
     (case delete_rows sb (length (trace w)) ''project_embeddings'' of
        DbOk \<Rightarrow> (Returns None,
                   emit (Delete ''project_embeddings'')
                     (w\<lparr>project_embeddings := filter (\<lambda>r. \<not> matches r) (project_embeddings w)\<rparr>))
      | DbError e \<Rightarrow> (Returns (Some e), emit (Delete ''project_embeddings'') w)
      | DbThrows e \<Rightarrow> (Throws e, emit (Delete ''project_embeddings'') w))"

definition delete_from_company_brain_embeddings ::
  "supabase \<Rightarrow> (CompanyBrainEmbedding \<Rightarrow> bool) \<Rightarrow> thrown option io" where
  "delete_from_company_brain_embeddings sb matches w =
     (case delete_rows sb (length (trace w)) ''company_brain_embeddings'' of
        DbOk \<Rightarrow> (Returns None,
                   emit (Delete ''company_brain_embeddings'')
                     (w\<lparr>company_brain_embeddings :=
                          filter (\<lambda>r. \<not> matches r) (company_brain_embeddings w)\<rparr>))
      | DbError e \<Rightarrow> (Returns (Some e), emit (Delete ''company_brain_embeddings'') w)
      | DbThrows e \<Rightarrow> (Throws e, emit (Delete ''company_brain_embeddings'') w))"

section \<open>The ranking functions of the database\<close>

text \<open>
  The SQL functions \<open>match_project_documents\<close> and \<open>match_company_brain_documents\<close> that
  the searches call through \<open>rpc\<close> are part of the database migrations, which are not among
  the sources. The definitions of this section follow the contract that the spec's
  Similarity Search Service gives for them.
\<close>

text \<open>
  Modelled from the spec: the dot product \<open>dot(a,b)\<close> in the similarity metric of the
  missing ranking functions, summed over the positions both vectors have.
\<close>

definition dot :: "vec \<Rightarrow> vec \<Rightarrow> real" where
  "dot a b = sum_list (map2 (*) a b)"

text \<open>
  Modelled from the spec: the similarity metric of the missing ranking functions,
  "cosine similarity = dot(a,b) / (|a| * |b|)".
\<close>

definition cosine_similarity :: "vec \<Rightarrow> vec \<Rightarrow> real" where
  "cosine_similarity a b = dot a b / (sqrt (dot a a) * sqrt (dot b b))"

text \<open>
  Modelled from the spec: the ranking of the missing functions \<open>match_project_documents\<close>
  and \<open>match_company_brain_documents\<close>: "compute cosine similarity between the query
  vector and every candidate record's embedding", "keep only candidates with similarity
  \<open>\<ge>\<close> threshold", "sort descending by similarity; truncate to limit", "most recent wins
  ties". A table is kept in insertion order, so its most recent row is the last one. A
  record without vector is no candidate, and without query vector nothing matches.
\<close>

definition rank_matches ::
  "vec option \<Rightarrow> real \<Rightarrow> int \<Rightarrow> 'r list \<Rightarrow> ('r \<Rightarrow> vec option) \<Rightarrow> ('r \<times> real) list" where
  "rank_matches query_embedding match_threshold match_count candidates emb =
     (case query_embedding of
        None \<Rightarrow> []
      | Some q \<Rightarrow>
          take (nat match_count)
            (sort_key (\<lambda>m. - snd m)
               (filter (\<lambda>m. match_threshold \<le> snd m)
                  (List.map_filter
                     (\<lambda>r. map_option (\<lambda>v. (r, cosine_similarity q v)) (emb r))
                     (rev candidates)))))"

text \<open>
  Modelled from the spec: the missing SQL function \<open>match_project_documents\<close>, called with
  \<open>p_query_embedding\<close>, \<open>p_project_id\<close>, \<open>p_match_threshold\<close> and \<open>p_match_count\<close>: the
  ranking "within the tenant scope (and narrower scope_id / content_type filters if
  supplied)", here the records of the project.
\<close>

definition match_project_documents ::
  "vec option \<Rightarrow> string \<Rightarrow> real \<Rightarrow> int \<Rightarrow> ProjectEmbeddingData list
     \<Rightarrow> (ProjectEmbeddingData \<times> real) list" where
  "match_project_documents p_query_embedding p_project_id p_match_threshold p_match_count rows =
     rank_matches p_query_embedding p_match_threshold p_match_count
       (filter (\<lambda>r. project_id r = p_project_id) rows) embedding"

text \<open>
  Modelled from the spec: the missing SQL function \<open>match_company_brain_documents\<close>, called
  with \<open>query_embedding\<close>, \<open>match_user_id\<close>, \<open>match_threshold\<close> and \<open>match_count\<close>: the
  ranking within the tenant scope, the records of the user.
\<close>

definition match_company_brain_documents ::
  "vec option \<Rightarrow> string \<Rightarrow> real \<Rightarrow> int \<Rightarrow> CompanyBrainEmbedding list
     \<Rightarrow> (CompanyBrainEmbedding \<times> real) list" where
  "match_company_brain_documents query_embedding match_user_id match_threshold match_count rows =
     rank_matches query_embedding match_threshold match_count
       (filter (\<lambda>r. user_id r = match_user_id) rows) embedding"

text \<open>
  \<open>await supabase.rpc(name, args)\<close> gives \<open>{ data, error }\<close> or throws; \<open>data\<close> is what the
  ranking function computes on the table, or \<open>null\<close>.
\<close>

definition rpc_match_project_documents ::
  "supabase \<Rightarrow> vec option \<Rightarrow> string \<Rightarrow> real \<Rightarrow> int
     \<Rightarrow> ((ProjectEmbeddingData \<times> real) list option \<times> thrown option) io" where
  "rpc_match_project_documents sb q projectId threshold limit w =
     (case call_rpc sb (length (trace w)) ''match_project_documents'' of
        RpcData \<Rightarrow>
          (Returns (Some (match_project_documents q projectId threshold limit (project_embeddings w)), None),
           emit (Rpc ''match_project_documents'') w)
      | RpcNull \<Rightarrow> (Returns (None, None), emit (Rpc ''match_project_documents'') w)
      | RpcError e \<Rightarrow> (Returns (None, Some e), emit (Rpc ''match_project_documents'') w)
      | RpcThrows e \<Rightarrow> (Throws e, emit (Rpc ''match_project_documents'') w))"

definition rpc_match_company_brain_documents ::
  "supabase \<Rightarrow> vec option \<Rightarrow> string \<Rightarrow> real \<Rightarrow> int
     \<Rightarrow> ((CompanyBrainEmbedding \<times> real) list option \<times> thrown option) io" where
  "rpc_match_company_brain_documents sb q userId threshold limit w =
     (case call_rpc sb (length (trace w)) ''match_company_brain_documents'' of
        RpcData \<Rightarrow>
          (Returns (Some (match_company_brain_documents q userId threshold limit
                            (company_brain_embeddings w)), None),
           emit (Rpc ''match_company_brain_documents'') w)
      | RpcNull \<Rightarrow> (Returns (None, None), emit (Rpc ''match_company_brain_documents'') w)
      | RpcError e \<Rightarrow> (Returns (None, Some e), emit (Rpc ''match_company_brain_documents'') w)
      | RpcThrows e \<Rightarrow> (Throws e, emit (Rpc ''match_company_brain_documents'') w))"

section \<open>The embedding client (src/lib/embeddings.ts)\<close>

record EmbeddingResponse =
  resp_embedding :: "vec option"
  resp_error :: "string option"

text \<open>The body of the \<open>try\<close> of \<open>generateEmbedding\<close>.\<close>

definition generateEmbedding_try :: "runtime \<Rightarrow> string \<Rightarrow> EmbeddingResponse io" where
  "generateEmbedding_try rt text w =
     (if \<not> truthy (VITE_GEMINI_API_KEY rt) then
        (Returns \<lparr>resp_embedding = Some [], resp_error = Some ''Gemini API key not configured''\<rparr>,
         emit (ConsoleWarn ''Gemini API key not configured'') w)
      else
        (case fetch rt (length (trace w)) text of
           FetchThrows e \<Rightarrow> (Throws e, emit (Fetch text) w)
         | Response ok status statusText body \<Rightarrow>
             if \<not> ok then
               (Throws (ErrorObj (''Gemini API error: '' @ string_of_nat status)), emit (Fetch text) w)
             else
               (case body of
                  BodyThrows e \<Rightarrow> (Throws e, emit (Fetch text) w)
                | BodyValues values \<Rightarrow>
                    (Returns \<lparr>resp_embedding = values, resp_error = None\<rparr>, emit (Fetch text) w))))"

definition generateEmbedding :: "runtime \<Rightarrow> string \<Rightarrow> EmbeddingResponse io" where
  "generateEmbedding rt text =
     try_catch (generateEmbedding_try rt text)
       (\<lambda>e. bind_io (console_error ''Error generating embedding:'')
          (\<lambda>_. return_io \<lparr>resp_embedding = Some [], resp_error = Some (error_message e)\<rparr>))"

section \<open>Store, delete and search (src/lib/embeddings.ts, src/lib/projectEmbeddings.ts)\<close>

record op_result =
  success :: bool
  error :: "string option"

text \<open>
  The first step of both store functions: \<open>let embedding = data.embedding; if (!embedding)
  { ... }\<close>. An array is truthy, also the empty one. The step ends the function early
  (\<open>Inl\<close>) with the failure result when the client reports an error, and otherwise gives
  the vector to insert (\<open>Inr\<close>).
\<close>

definition embedding_or_generate ::
  "runtime \<Rightarrow> vec option \<Rightarrow> string \<Rightarrow> (op_result + vec option) io" where
  "embedding_or_generate rt given text =
     (case given of
        Some v \<Rightarrow> return_io (Inr (Some v))
      | None \<Rightarrow>
          bind_io (generateEmbedding rt text)
            (\<lambda>result. if truthy (resp_error result)
               then return_io (Inl \<lparr>success = False, error = resp_error result\<rparr>)
               else return_io (Inr (resp_embedding result))))"

definition storeProjectEmbedding :: "runtime \<Rightarrow> supabase \<Rightarrow> ProjectEmbeddingData \<Rightarrow> op_result io" where
  "storeProjectEmbedding rt sb data =
     try_catch
       (bind_io (embedding_or_generate rt (embedding data) (content data))
          (\<lambda>step. case step of
             Inl failure \<Rightarrow> return_io failure
           | Inr emb \<Rightarrow>
               bind_io (insert_into_project_embeddings sb
                          \<lparr>content_type = content_type data, content_id = content_id data,
                           content = content data, metadata = metadata data, embedding = emb,
                           project_id = project_id data, company_id = company_id data\<rparr>)
                 (\<lambda>err. case err of
                    Some e \<Rightarrow> throw_io e
                  | None \<Rightarrow> return_io \<lparr>success = True, error = None\<rparr>)))
       (\<lambda>e. bind_io (console_error ''Error storing project embedding:'')
          (\<lambda>_. return_io \<lparr>success = False, error = Some (error_message e)\<rparr>))"

definition storeEmbedding :: "runtime \<Rightarrow> supabase \<Rightarrow> CompanyBrainEmbedding \<Rightarrow> op_result io" where
  "storeEmbedding rt sb data =
     try_catch
       (bind_io (embedding_or_generate rt (embedding data) (content data))
          (\<lambda>step. case step of
             Inl failure \<Rightarrow> return_io failure
           | Inr emb \<Rightarrow>
               bind_io (insert_into_company_brain_embeddings sb
                          \<lparr>content_type = content_type data, content_id = content_id data,
                           content = content data, metadata = metadata data, embedding = emb,
                           user_id = user_id data\<rparr>)
                 (\<lambda>err. case err of
                    Some e \<Rightarrow> throw_io e
                  | None \<Rightarrow> return_io \<lparr>success = True, error = None\<rparr>)))
       (\<lambda>e. bind_io (console_error ''Error storing embedding:'')
          (\<lambda>_. return_io \<lparr>success = False, error = Some (error_message e)\<rparr>))"

definition deleteProjectEmbeddings :: "supabase \<Rightarrow> string \<Rightarrow> op_result io" where
  "deleteProjectEmbeddings sb projectId =
     try_catch
       (bind_io (delete_from_project_embeddings sb (\<lambda>r. project_id r = projectId))
          (\<lambda>err. case err of
             Some e \<Rightarrow> throw_io e
           | None \<Rightarrow> return_io \<lparr>success = True, error = None\<rparr>))
       (\<lambda>e. bind_io (console_error ''Error deleting project embeddings:'')
          (\<lambda>_. return_io \<lparr>success = False, error = Some (error_message e)\<rparr>))"

definition deleteProjectEmbeddingsByType :: "supabase \<Rightarrow> string \<Rightarrow> content_type \<Rightarrow> op_result io" where
  "deleteProjectEmbeddingsByType sb projectId contentType =
     try_catch
       (bind_io (delete_from_project_embeddings sb
                   (\<lambda>r. project_id r = projectId \<and> content_type r = contentType))
          (\<lambda>err. case err of
             Some e \<Rightarrow> throw_io e
           | None \<Rightarrow> return_io \<lparr>success = True, error = None\<rparr>))
       (\<lambda>e. bind_io (console_error ''Error deleting project embeddings by type:'')
          (\<lambda>_. return_io \<lparr>success = False, error = Some (error_message e)\<rparr>))"

text \<open>\<open>return data || []\<close>.\<close>

definition data_or_empty :: "'a list option \<Rightarrow> 'a list" where
  "data_or_empty data = (case data of Some rows \<Rightarrow> rows | None \<Rightarrow> [])"

definition searchProjectContent ::
  "runtime \<Rightarrow> supabase \<Rightarrow> string \<Rightarrow> string \<Rightarrow> real \<Rightarrow> int
     \<Rightarrow> (ProjectEmbeddingData \<times> real) list io" where
  "searchProjectContent rt sb projectId query threshold limit =
     try_catch
       (bind_io (generateEmbedding rt query)
          (\<lambda>result. if truthy (resp_error result)
             then bind_io (console_error ''Error generating query embedding:'') (\<lambda>_. return_io [])
             else bind_io (rpc_match_project_documents sb (resp_embedding result) projectId threshold limit)
                    (\<lambda>reply. case snd reply of
                       Some e \<Rightarrow> throw_io e
                     | None \<Rightarrow> return_io (data_or_empty (fst reply)))))
       (\<lambda>e. bind_io (console_error ''Error searching project content:'') (\<lambda>_. return_io []))"

definition searchSimilarContent ::
  "runtime \<Rightarrow> supabase \<Rightarrow> string \<Rightarrow> string \<Rightarrow> real \<Rightarrow> int
     \<Rightarrow> (CompanyBrainEmbedding \<times> real) list io" where
  "searchSimilarContent rt sb userId query threshold limit =
     try_catch
       (bind_io (generateEmbedding rt query)
          (\<lambda>result. if truthy (resp_error result)
             then bind_io (console_error ''Error generating query embedding:'') (\<lambda>_. return_io [])
             else bind_io (rpc_match_company_brain_documents sb (resp_embedding result) userId threshold limit)
                    (\<lambda>reply. case snd reply of
                       Some e \<Rightarrow> throw_io e
                     | None \<Rightarrow> return_io (data_or_empty (fst reply)))))
       (\<lambda>e. bind_io (console_error ''Error searching similar content:'') (\<lambda>_. return_io []))"

section \<open>The regeneration jobs (edge functions)\<close>

text \<open>
  \<open>generateEmbedding(text, apiKey)\<close> of the edge functions: it throws where the library's
  client returns an error.
\<close>

definition edge_generateEmbedding :: "runtime \<Rightarrow> string \<Rightarrow> vec option io" where
  "edge_generateEmbedding rt text w =
     (case fetch rt (length (trace w)) text of
        FetchThrows e \<Rightarrow> (Throws e, emit (Fetch text) w)
      | Response ok status statusText body \<Rightarrow>
          if \<not> ok then
            (Throws (ErrorObj (''Gemini API error: '' @ statusText)), emit (Fetch text) w)
          else
            (case body of
               BodyThrows e \<Rightarrow> (Throws e, emit (Fetch text) w)
             | BodyValues values \<Rightarrow> (Returns values, emit (Fetch text) w)))"

text \<open>
  The pieces of the content templates: \<open>v ? `label${v}` : ''\<close>,
  \<open>xs?.length ? `label${xs.join(', ')}` : ''\<close> and \<open>[...].filter(Boolean).join('\n')\<close>.
\<close>

definition labelled :: "string \<Rightarrow> string option \<Rightarrow> string" where
  "labelled label v = (case v of Some s \<Rightarrow> if s \<noteq> [] then label @ s else [] | None \<Rightarrow> [])"

definition labelled_list :: "string \<Rightarrow> string list option \<Rightarrow> string" where
  "labelled_list label xs =
     (case xs of Some l \<Rightarrow> if l \<noteq> [] then label @ join '', '' l else [] | None \<Rightarrow> [])"

definition lines :: "string list \<Rightarrow> string" where
  "lines parts = join [CHR 0x0A] (filter (\<lambda>s. s \<noteq> []) parts)"

definition json_string :: "string option \<Rightarrow> json" where
  "json_string v = (case v of Some s \<Rightarrow> JString s | None \<Rightarrow> JNull)"

definition json_strings :: "string list option \<Rightarrow> json" where
  "json_strings v = (case v of Some l \<Rightarrow> JStrings l | None \<Rightarrow> JNull)"

text \<open>
  A read \<open>await supabase.from(table).select('*')...\<close> gives \<open>{ data, error }\<close> or throws.
\<close>

definition select_io :: "string \<Rightarrow> 'a select_result \<Rightarrow> ('a option \<times> thrown option) io" where
  "select_io table reply w =
     (case reply of
        SelectData d \<Rightarrow> (Returns (d, None), emit (Select table) w)
      | SelectError e \<Rightarrow> (Returns (None, Some e), emit (Select table) w)
      | SelectThrows e \<Rightarrow> (Throws e, emit (Select table) w))"

definition from_projects :: "supabase \<Rightarrow> (Project list option \<times> thrown option) io" where
  "from_projects sb w = select_io ''projects'' (select_projects sb (length (trace w))) w"

definition from_project_metadata ::
  "supabase \<Rightarrow> string \<Rightarrow> (ProjectMetadata option \<times> thrown option) io" where
  "from_project_metadata sb projectId w =
     select_io ''project_metadata'' (select_project_metadata sb (length (trace w)) projectId) w"

definition from_project_documents ::
  "supabase \<Rightarrow> string \<Rightarrow> (ProjectDocument list option \<times> thrown option) io" where
  "from_project_documents sb projectId w =
     select_io ''project_documents'' (select_project_documents sb (length (trace w)) projectId) w"

definition from_company_brain :: "supabase \<Rightarrow> (CompanyBrain list option \<times> thrown option) io" where
  "from_company_brain sb w = select_io ''company_brain'' (select_company_brain sb (length (trace w))) w"

definition from_brain_documents :: "supabase \<Rightarrow> (BrainDocument list option \<times> thrown option) io" where
  "from_brain_documents sb w =
     select_io ''brain_documents'' (select_brain_documents sb (length (trace w))) w"

record request =
  http_method :: string
  authorization :: "string option"

text \<open>
  A response: its status and what its JSON body carries, the \<open>error\<close> message or the
  \<open>stats\<close> of a finished sweep.
\<close>

datatype payload =
  NoBody
  | ErrorBody string
  | ProjectStats nat nat nat nat
  | CompanyStats nat nat nat

record response =
  status :: nat
  body :: payload

subsection \<open>Project embeddings (regenerate-project-embeddings)\<close>

text \<open>
  The check mark U+2713 that two log texts of this job begin with. It is a code unit
  beyond 255 and stands here as the three bytes of its UTF-8 form; it occurs in console
  texts only.
\<close>

definition check_mark :: string where
  "check_mark = [CHR 0xE2, CHR 0x9C, CHR 0x93]"

definition prepareProjectMetadataForEmbedding :: "ProjectMetadata \<Rightarrow> string \<Rightarrow> string" where
  "prepareProjectMetadataForEmbedding m projectName =
     lines [''Project: '' @ projectName,
            labelled ''Description: '' (pm_project_description m),
            labelled ''Goals: '' (pm_project_goals m),
            labelled ''Target Audience: '' (pm_target_audience m),
            labelled ''Budget: '' (pm_budget_range m),
            labelled ''Timeline: '' (pm_timeline m),
            labelled_list ''Tech Stack: '' (pm_tech_stack m),
            labelled_list ''Key Features: '' (pm_key_features m),
            labelled_list ''Key Goals: '' (pm_key_goals m),
            labelled ''Success Metrics: '' (pm_success_metrics m),
            labelled ''Constraints: '' (pm_constraints m),
            labelled ''Additional Notes: '' (pm_additional_notes m)]"

definition project_document_content :: "Project \<Rightarrow> ProjectDocument \<Rightarrow> string" where
  "project_document_content project doc =
     lines [''Project: '' @ proj_project_name project,
            ''File: '' @ pd_file_name doc,
            labelled ''Description: '' (pd_description doc),
            labelled ''Category: '' (pd_category doc),
            labelled_list ''Tags: '' (pd_tags doc),
            ''Type: '' @ pd_file_type doc]"

text \<open>
  The body of \<open>if (!metadataError && metadata) { ... }\<close>. The replies of \<open>delete\<close> and
  \<open>insert\<close> are not looked at.
\<close>

definition regenerate_project_metadata ::
  "runtime \<Rightarrow> supabase \<Rightarrow> Project \<Rightarrow> ProjectMetadata \<Rightarrow> nat \<Rightarrow> nat io" where
  "regenerate_project_metadata rt sb project m metadataCount =
     bind_io (delete_from_project_embeddings sb
                (\<lambda>r. project_id r = proj_id project \<and> content_type r = project_metadata))
       (\<lambda>_. bind_io (edge_generateEmbedding rt
                        (prepareProjectMetadataForEmbedding m (proj_project_name project)))
       (\<lambda>emb. bind_io (insert_into_project_embeddings sb
                          \<lparr>content_type = project_metadata, content_id = Some (proj_id project),
                           content = prepareProjectMetadataForEmbedding m (proj_project_name project),
                           metadata = Some [(''source'', JString ''project_metadata_form''),
                                            (''project_name'', JString (proj_project_name project)),
                                            (''status'', JString (proj_status project))],
                           embedding = emb,
                           project_id = proj_id project, company_id = proj_company_id project\<rparr>)
       (\<lambda>_. bind_io (console_log (check_mark @ '' Regenerated metadata embedding for: ''
                                    @ proj_project_name project))
       (\<lambda>_. return_io (metadataCount + 1)))))"

text \<open>The body of \<open>for (const doc of documents) { ... }\<close>.\<close>

definition regenerate_project_document ::
  "runtime \<Rightarrow> supabase \<Rightarrow> Project \<Rightarrow> ProjectDocument \<Rightarrow> nat \<Rightarrow> nat io" where
  "regenerate_project_document rt sb project doc documentsCount =
     bind_io (delete_from_project_embeddings sb
                (\<lambda>r. project_id r = proj_id project \<and> content_type r = document
                      \<and> content_id r = Some (pd_id doc)))
       (\<lambda>_. bind_io (edge_generateEmbedding rt (project_document_content project doc))
       (\<lambda>emb. bind_io (insert_into_project_embeddings sb
                          \<lparr>content_type = document, content_id = Some (pd_id doc),
                           content = project_document_content project doc,
                           metadata = Some [(''file_name'', JString (pd_file_name doc)),
                                            (''file_type'', JString (pd_file_type doc)),
                                            (''category'', json_string (pd_category doc)),
                                            (''tags'', json_strings (pd_tags doc)),
                                            (''storage_url'', JString (pd_storage_url doc)),
                                            (''project_name'', JString (proj_project_name project))],
                           embedding = emb,
                           project_id = proj_id project, company_id = proj_company_id project\<rparr>)
       (\<lambda>_. bind_io (console_log (''  '' @ check_mark @ '' Regenerated document embedding: ''
                                    @ pd_file_name doc))
       (\<lambda>_. return_io (documentsCount + 1)))))"

text \<open>
  The body of \<open>for (const project of projects || []) { ... }\<close>, on the counters
  \<open>(metadataCount, documentsCount)\<close>.
\<close>

definition regenerate_project :: "runtime \<Rightarrow> supabase \<Rightarrow> Project \<Rightarrow> nat \<times> nat \<Rightarrow> (nat \<times> nat) io" where
  "regenerate_project rt sb project counts =
     bind_io (console_log (''Processing project: '' @ proj_project_name project))
       (\<lambda>_. bind_io (from_project_metadata sb (proj_id project))
       (\<lambda>metadataReply. bind_io
            (case metadataReply of
               (Some m, None) \<Rightarrow> regenerate_project_metadata rt sb project m (fst counts)
             | _ \<Rightarrow> return_io (fst counts))
       (\<lambda>metadataCount. bind_io (from_project_documents sb (proj_id project))
       (\<lambda>docReply. bind_io
            (case docReply of
               (Some documents, None) \<Rightarrow>
                 for_each (regenerate_project_document rt sb project) documents (snd counts)
             | _ \<Rightarrow> return_io (snd counts))
       (\<lambda>documentsCount. return_io (metadataCount, documentsCount))))))"

text \<open>The body of the handler's \<open>try\<close>, and the handler.\<close>

definition regenerate_project_embeddings_try :: "request \<Rightarrow> runtime \<Rightarrow> supabase \<Rightarrow> response io" where
  "regenerate_project_embeddings_try req rt sb =
     (if \<not> truthy (authorization req) then
        return_io \<lparr>status = 401, body = ErrorBody ''Unauthorized''\<rparr>
      else if \<not> truthy (GEMINI_API_KEY rt) then
        throw_io (ErrorObj ''GEMINI_API_KEY not configured'')
      else
        (case createClient rt of
           Some e \<Rightarrow> throw_io e
         | None \<Rightarrow>
             bind_io (console_log ''Starting project embedding regeneration...'')
               (\<lambda>_. bind_io (from_projects sb)
               (\<lambda>reply. case snd reply of
                  Some projectsError \<Rightarrow> throw_io projectsError
                | None \<Rightarrow>
                    bind_io (for_each (regenerate_project rt sb) (data_or_empty (fst reply)) (0, 0))
                      (\<lambda>counts. return_io
                         \<lparr>status = 200,
                          body = ProjectStats (length (data_or_empty (fst reply)))
                                   (fst counts) (snd counts) (fst counts + snd counts)\<rparr>)))))"

definition regenerate_project_embeddings :: "request \<Rightarrow> runtime \<Rightarrow> supabase \<Rightarrow> response io" where
  "regenerate_project_embeddings req rt sb =
     (if http_method req = ''OPTIONS'' then return_io \<lparr>status = 204, body = NoBody\<rparr>
      else
        try_catch (regenerate_project_embeddings_try req rt sb)
          (\<lambda>e. bind_io (console_error ''Error regenerating project embeddings:'')
             (\<lambda>_. return_io \<lparr>status = 500, body = ErrorBody (error_message e)\<rparr>)))"

subsection \<open>Company brain embeddings (regenerate-embeddings)\<close>

definition prepareCompanyInfoForEmbedding :: "CompanyBrain \<Rightarrow> string" where
  "prepareCompanyInfoForEmbedding brain =
     lines [labelled ''Company: '' (cb_company_name brain),
            labelled ''Industry: '' (cb_industry brain),
            labelled ''Size: '' (cb_company_size brain),
            labelled ''Target Market: '' (cb_target_market brain),
            labelled ''Products: '' (cb_key_products brain),
            labelled ''Value Proposition: '' (cb_unique_value_prop brain)]"

definition brain_document_content :: "BrainDocument \<Rightarrow> string" where
  "brain_document_content doc =
     lines [''File: '' @ bd_file_name doc,
            labelled ''Description: '' (bd_description doc),
            labelled ''Category: '' (bd_category doc),
            labelled_list ''Tags: '' (bd_tags doc),
            ''Type: '' @ bd_file_type doc]"

text \<open>
  The body of \<open>for (let i = 0; i < chunks.length; i++) { ... }\<close>, on the pair of index
  and chunk; the loop has no local variables.
\<close>

definition regenerate_chunk ::
  "runtime \<Rightarrow> supabase \<Rightarrow> CompanyBrain \<Rightarrow> nat \<Rightarrow> nat \<times> string \<Rightarrow> unit \<Rightarrow> unit io" where
  "regenerate_chunk rt sb brain totalChunks ichunk u =
     bind_io (edge_generateEmbedding rt (snd ichunk))
       (\<lambda>chunkEmbedding. bind_io (insert_into_company_brain_embeddings sb
                          \<lparr>content_type = additional_context, content_id = Some (cb_id brain),
                           content = snd ichunk,
                           metadata = Some [(''chunk_index'', JNumber (fst ichunk)),
                                            (''total_chunks'', JNumber totalChunks)],
                           embedding = chunkEmbedding,
                           user_id = cb_user_id brain\<rparr>)
       (\<lambda>_. return_io ()))"

text \<open>The body of \<open>if (brain.additional_context) { ... }\<close>; the chunker's default size is 1000.\<close>

definition regenerate_additional_context ::
  "runtime \<Rightarrow> supabase \<Rightarrow> CompanyBrain \<Rightarrow> string \<Rightarrow> unit io" where
  "regenerate_additional_context rt sb brain context =
     bind_io (delete_from_company_brain_embeddings sb
                (\<lambda>r. user_id r = cb_user_id brain \<and> content_type r = additional_context))
       (\<lambda>_. let chunks = edge_chunkText context 1000 in
             bind_io (for_each (regenerate_chunk rt sb brain (length chunks))
                        (zip [0 ..< length chunks] chunks) ())
       (\<lambda>_. console_log (''Regenerated '' @ string_of_nat (length chunks)
                           @ '' additional context chunks'')))"

text \<open>
  The body of \<open>for (const brain of companyBrains || []) { ... }\<close>. The template prints a
  \<open>null\<close> company name as \<open>null\<close>.
\<close>

definition regenerate_brain :: "runtime \<Rightarrow> supabase \<Rightarrow> CompanyBrain \<Rightarrow> unit \<Rightarrow> unit io" where
  "regenerate_brain rt sb brain u =
     bind_io (delete_from_company_brain_embeddings sb
                (\<lambda>r. user_id r = cb_user_id brain \<and> content_type r = company_info))
       (\<lambda>_. bind_io (edge_generateEmbedding rt (prepareCompanyInfoForEmbedding brain))
       (\<lambda>emb. bind_io (insert_into_company_brain_embeddings sb
                          \<lparr>content_type = company_info, content_id = Some (cb_id brain),
                           content = prepareCompanyInfoForEmbedding brain,
                           metadata = Some [(''company_name'', json_string (cb_company_name brain)),
                                            (''industry'', json_string (cb_industry brain)),
                                            (''company_size'', json_string (cb_company_size brain))],
                           embedding = emb,
                           user_id = cb_user_id brain\<rparr>)
       (\<lambda>_. bind_io (console_log (''Regenerated embedding for company: ''
                                    @ (case cb_company_name brain of Some n \<Rightarrow> n | None \<Rightarrow> ''null'')))
       (\<lambda>_. case cb_additional_context brain of
               Some context \<Rightarrow>
                 if context \<noteq> [] then regenerate_additional_context rt sb brain context
                 else return_io ()
             | None \<Rightarrow> return_io ()))))"

text \<open>The body of \<open>for (const doc of documents || []) { ... }\<close>.\<close>

definition regenerate_brain_document :: "runtime \<Rightarrow> supabase \<Rightarrow> BrainDocument \<Rightarrow> unit \<Rightarrow> unit io" where
  "regenerate_brain_document rt sb doc u =
     bind_io (delete_from_company_brain_embeddings sb
                (\<lambda>r. user_id r = bd_user_id doc \<and> content_type r = document
                      \<and> content_id r = Some (bd_id doc)))
       (\<lambda>_. bind_io (edge_generateEmbedding rt (brain_document_content doc))
       (\<lambda>emb. bind_io (insert_into_company_brain_embeddings sb
                          \<lparr>content_type = document, content_id = Some (bd_id doc),
                           content = brain_document_content doc,
                           metadata = Some [(''file_name'', JString (bd_file_name doc)),
                                            (''file_type'', JString (bd_file_type doc)),
                                            (''category'', json_string (bd_category doc)),
                                            (''tags'', json_strings (bd_tags doc)),
                                            (''storage_url'', JString (bd_storage_url doc))],
                           embedding = emb,
                           user_id = bd_user_id doc\<rparr>)
       (\<lambda>_. console_log (''Regenerated embedding for document: '' @ bd_file_name doc))))"

definition regenerate_embeddings_try :: "request \<Rightarrow> runtime \<Rightarrow> supabase \<Rightarrow> response io" where
  "regenerate_embeddings_try req rt sb =
     (if \<not> truthy (authorization req) then
        return_io \<lparr>status = 401, body = ErrorBody ''Unauthorized''\<rparr>
      else if \<not> truthy (GEMINI_API_KEY rt) then
        throw_io (ErrorObj ''GEMINI_API_KEY not configured'')
      else
        (case createClient rt of
           Some e \<Rightarrow> throw_io e
         | None \<Rightarrow>
             bind_io (console_log ''Starting embedding regeneration...'')
               (\<lambda>_. bind_io (from_company_brain sb)
               (\<lambda>brains. case snd brains of
                  Some brainError \<Rightarrow> throw_io brainError
                | None \<Rightarrow>
                    bind_io (for_each (regenerate_brain rt sb) (data_or_empty (fst brains)) ())
                      (\<lambda>_. bind_io (from_brain_documents sb)
                      (\<lambda>docs. case snd docs of
                         Some docError \<Rightarrow> throw_io docError
                       | None \<Rightarrow>
                           bind_io (for_each (regenerate_brain_document rt sb)
                                      (data_or_empty (fst docs)) ())
                             (\<lambda>_. return_io
                                \<lparr>status = 200,
                                 body = CompanyStats (length (data_or_empty (fst brains)))
                                          (length (data_or_empty (fst docs)))
                                          (length (data_or_empty (fst brains))
                                           + length (data_or_empty (fst docs)))\<rparr>)))))))"

definition regenerate_embeddings :: "request \<Rightarrow> runtime \<Rightarrow> supabase \<Rightarrow> response io" where
  "regenerate_embeddings req rt sb =
     (if http_method req = ''OPTIONS'' then return_io \<lparr>status = 204, body = NoBody\<rparr>
      else
        try_catch (regenerate_embeddings_try req rt sb)
          (\<lambda>e. bind_io (console_error ''Error regenerating embeddings:'')
             (\<lambda>_. return_io \<lparr>status = 500, body = ErrorBody (error_message e)\<rparr>)))"

section \<open>Notions used in the properties\<close>

text \<open>
  A paragraph is tidy when it is not empty and neither begins nor ends with white space.
  \<open>pending qs\<close> is the buffer \<open>currentChunk\<close> after the paragraphs \<open>qs\<close> were added to the
  empty buffer.
\<close>

definition tidy :: "string \<Rightarrow> bool" where
  "tidy p \<longleftrightarrow> p \<noteq> [] \<and> \<not> is_space (hd p) \<and> \<not> is_space (last p)"

definition pending :: "string list \<Rightarrow> string" where
  "pending qs = (if qs = [] then [] else join blank_line qs @ blank_line)"

text \<open>
  The size bound of a chunk, given the paragraphs of the text: the chunk has at most
  \<open>m\<close> characters, or it is one paragraph, trimmed, that itself has more. \<open>buffer_ok\<close> is
  the invariant of the buffer that gives the bound.
\<close>

definition within_bound :: "int \<Rightarrow> string list \<Rightarrow> string \<Rightarrow> bool" where
  "within_bound m paragraphs c \<longleftrightarrow>
     int (length c) \<le> m \<or> (\<exists>p\<in>set paragraphs. c = trim p \<and> m < int (length p))"

definition buffer_ok :: "int \<Rightarrow> string list \<Rightarrow> string \<Rightarrow> bool" where
  "buffer_ok m paragraphs cur \<longleftrightarrow>
     cur = [] \<or> (\<exists>s. cur = s @ blank_line \<and> (s \<in> set paragraphs \<or> int (length s) \<le> m))"

text \<open>The calls a run added to the trace.\<close>

definition calls_since :: "world \<Rightarrow> world \<Rightarrow> event list" where
  "calls_since w w' = drop (length (trace w)) (trace w')"

text \<open>The embedding client fails on a text: it returns a result whose \<open>error\<close> is set.\<close>

definition client_fails :: "runtime \<Rightarrow> string \<Rightarrow> world \<Rightarrow> bool" where
  "client_fails rt text w \<longleftrightarrow>
     (case fst (generateEmbedding rt text w) of
        Returns result \<Rightarrow> truthy (resp_error result)
      | Throws e \<Rightarrow> False)"

text \<open>The rows the store functions hand to \<open>insert\<close>.\<close>

definition project_row :: "ProjectEmbeddingData \<Rightarrow> vec option \<Rightarrow> ProjectEmbeddingData" where
  "project_row data emb =
     \<lparr>content_type = content_type data, content_id = content_id data,
      content = content data, metadata = metadata data, embedding = emb,
      project_id = project_id data, company_id = company_id data\<rparr>"

definition brain_row :: "CompanyBrainEmbedding \<Rightarrow> vec option \<Rightarrow> CompanyBrainEmbedding" where
  "brain_row data emb =
     \<lparr>content_type = content_type data, content_id = content_id data,
      content = content data, metadata = metadata data, embedding = emb,
      user_id = user_id data\<rparr>"

text \<open>
  A call returns the tagged failure and inserts nothing: it returns
  \<open>{ success: false, error }\<close>, both tables are as before and no \<open>insert\<close> was issued.
\<close>

definition fails_without_insert :: "op_result io \<Rightarrow> world \<Rightarrow> bool" where
  "fails_without_insert call w \<longleftrightarrow>
     (\<exists>m w'. call w = (Returns \<lparr>success = False, error = Some m\<rparr>, w')
        \<and> project_embeddings w' = project_embeddings w
        \<and> company_brain_embeddings w' = company_brain_embeddings w
        \<and> (\<forall>t. Insert t \<notin> set (calls_since w w')))"

text \<open>
  A search degrades to no results: it returns the empty list, no \<open>rpc\<close> was issued and
  the failure to embed the query was written to the console.
\<close>

definition degrades_to_empty :: "'a list io \<Rightarrow> world \<Rightarrow> bool" where
  "degrades_to_empty call w \<longleftrightarrow>
     (\<exists>w'. call w = (Returns [], w')
        \<and> (\<forall>t. Rpc t \<notin> set (calls_since w w'))
        \<and> ConsoleError ''Error generating query embedding:'' \<in> set (calls_since w w'))"

text \<open>The key of a record of the project table, and the records that carry a key.\<close>

definition has_key ::
  "string \<Rightarrow> string \<Rightarrow> content_type \<Rightarrow> string option \<Rightarrow> ProjectEmbeddingData \<Rightarrow> bool" where
  "has_key tenant scope ct cid data \<longleftrightarrow>
     company_id data = tenant \<and> project_id data = scope \<and> content_type data = ct
     \<and> content_id data = cid"

definition live_records ::
  "string \<Rightarrow> string \<Rightarrow> content_type \<Rightarrow> string option \<Rightarrow> world \<Rightarrow> ProjectEmbeddingData list" where
  "live_records tenant scope ct cid w = filter (has_key tenant scope ct cid) (project_embeddings w)"

text \<open>
  The vector that a store function hands to \<open>insert\<close>, and the world at that point: the
  caller's vector, or else what the client returned. A vector is available when the
  caller gave one or the client did not fail.
\<close>

definition vector_for :: "runtime \<Rightarrow> vec option \<Rightarrow> string \<Rightarrow> world \<Rightarrow> vec option \<times> world" where
  "vector_for rt given text w =
     (case given of
        Some v \<Rightarrow> (Some v, w)
      | None \<Rightarrow>
          (case generateEmbedding rt text w of
             (Returns result, w1) \<Rightarrow> (resp_embedding result, w1)
           | (Throws e, w1) \<Rightarrow> (None, w1)))"

definition vector_available :: "runtime \<Rightarrow> vec option \<Rightarrow> string \<Rightarrow> world \<Rightarrow> bool" where
  "vector_available rt given text w \<longleftrightarrow> given \<noteq> None \<or> \<not> client_fails rt text w"

text \<open>
  A call answers for what happened: it returns; when the operation went through
  (\<open>accepted\<close>) its result is \<open>{ success: true }\<close> and the effect is in place; when it did
  not, its result is \<open>{ success: false, error: m }\<close> for a message \<open>m\<close>.
\<close>

definition answers :: "op_result io \<Rightarrow> world \<Rightarrow> bool \<Rightarrow> (world \<Rightarrow> bool) \<Rightarrow> bool" where
  "answers call w accepted effect \<longleftrightarrow>
     (\<exists>r w'. call w = (Returns r, w')
        \<and> (if accepted then r = \<lparr>success = True, error = None\<rparr> \<and> effect w'
            else (\<exists>m. r = \<lparr>success = False, error = Some m\<rparr>)))"

text \<open>
  Every row that carries a vector carries one of length \<open>d\<close>; and the tables accept a
  row with a vector only when the vector has length \<open>d\<close>.
\<close>

definition uniform :: "nat \<Rightarrow> 'a embedding_fields_scheme list \<Rightarrow> bool" where
  "uniform d rows \<longleftrightarrow> (\<forall>r\<in>set rows. \<forall>v. embedding r = Some v \<longrightarrow> length v = d)"

definition tables_enforce :: "supabase \<Rightarrow> nat \<Rightarrow> bool" where
  "tables_enforce sb d \<longleftrightarrow>
     (\<forall>n row v. insert_project_embeddings sb n row = DbOk \<and> embedding row = Some v
        \<longrightarrow> length v = d)
     \<and> (\<forall>n row v. insert_company_brain_embeddings sb n row = DbOk \<and> embedding row = Some v
        \<longrightarrow> length v = d)"

section \<open>Concrete runs\<close>

text \<open>
  A runtime without provider key; a runtime whose provider answers every text with the
  vector \<open>[1, 0]\<close>, except three texts that it rejects with status 500.
\<close>

definition keyless_runtime :: runtime where
  "keyless_runtime =
     \<lparr>VITE_GEMINI_API_KEY = None, GEMINI_API_KEY = None, createClient = None,
      fetch = (\<lambda>n t. Response True 200 ''OK'' (BodyValues (Some [1, 0])))\<rparr>"

definition rejected_texts :: "string list" where
  "rejected_texts =
     [''Project: Broken'', ''Company: Broken'', ''File: broken.pdf'' @ [CHR 0x0A] @ ''Type: pdf'']"

definition picky_runtime :: runtime where
  "picky_runtime =
     \<lparr>VITE_GEMINI_API_KEY = Some ''key'', GEMINI_API_KEY = Some ''key'', createClient = None,
      fetch = (\<lambda>n t. if t \<in> set rejected_texts
                      then Response False 500 ''Internal Server Error'' (BodyValues None)
                      else Response True 200 ''OK'' (BodyValues (Some [1, 0])))\<rparr>"

definition cron_request :: request where
  "cron_request = \<lparr>http_method = ''POST'', authorization = Some ''Bearer service-role-key''\<rparr>"

definition named_project :: "string \<Rightarrow> string \<Rightarrow> Project" where
  "named_project projectId name =
     \<lparr>proj_id = projectId, proj_company_id = ''acme'', proj_project_name = name,
      proj_status = ''active''\<rparr>"

definition bare_metadata :: "string \<Rightarrow> ProjectMetadata" where
  "bare_metadata projectId =
     \<lparr>pm_id = ''m-'' @ projectId, pm_project_id = projectId, pm_company_id = ''acme'',
      pm_project_description = None, pm_project_goals = None, pm_target_audience = None,
      pm_budget_range = None, pm_timeline = None, pm_tech_stack = None, pm_key_features = None,
      pm_key_goals = None, pm_success_metrics = None, pm_constraints = None,
      pm_additional_notes = None\<rparr>"

definition named_brain :: "string \<Rightarrow> string \<Rightarrow> CompanyBrain" where
  "named_brain userId name =
     \<lparr>cb_id = ''b-'' @ userId, cb_user_id = userId, cb_company_name = Some name,
      cb_industry = None, cb_company_size = None, cb_target_market = None, cb_key_products = None,
      cb_unique_value_prop = None, cb_additional_context = None\<rparr>"

definition named_document :: "string \<Rightarrow> string \<Rightarrow> BrainDocument" where
  "named_document docId name =
     \<lparr>bd_id = docId, bd_user_id = ''u2'', bd_file_name = name, bd_file_type = ''pdf'',
      bd_description = None, bd_tags = None, bd_category = None,
      bd_storage_url = ''https://files.example/'' @ name\<rparr>"

text \<open>
  A database that accepts every statement and holds two projects and two company brains,
  the first of each with a text the provider rejects; and one that holds one company and
  two documents, the first with a rejected text.
\<close>

definition accepting_db :: supabase where
  "accepting_db =
     \<lparr>insert_project_embeddings = (\<lambda>n row. DbOk),
      insert_company_brain_embeddings = (\<lambda>n row. DbOk),
      delete_rows = (\<lambda>n table. DbOk),
      call_rpc = (\<lambda>n name. RpcData),
      select_projects =
        (\<lambda>n. SelectData (Some [named_project ''p1'' ''Broken'', named_project ''p2'' ''Healthy''])),
      select_project_metadata = (\<lambda>n projectId. SelectData (Some (bare_metadata projectId))),
      select_project_documents = (\<lambda>n projectId. SelectData (Some [])),
      select_company_brain =
        (\<lambda>n. SelectData (Some [named_brain ''u1'' ''Broken'', named_brain ''u2'' ''Healthy''])),
      select_brain_documents = (\<lambda>n. SelectData (Some []))\<rparr>"

definition documents_db :: supabase where
  "documents_db =
     accepting_db
       \<lparr>select_company_brain := (\<lambda>n. SelectData (Some [named_brain ''u2'' ''Healthy''])),
        select_brain_documents :=
          (\<lambda>n. SelectData (Some [named_document ''d1'' ''broken.pdf'',
                                   named_document ''d2'' ''healthy.pdf'']))\<rparr>"

text \<open>
  A database whose embedding columns are declared \<open>vector(d)\<close> and may be null, as the
  README of match-documents declares them with \<open>d = 768\<close>: it takes a row without vector
  and a row whose vector has length \<open>d\<close>, and refuses every other row.
\<close>

definition documented_db :: "nat \<Rightarrow> supabase" where
  "documented_db d =
     accepting_db
       \<lparr>insert_project_embeddings :=
          (\<lambda>n row. case embedding row of
                      None \<Rightarrow> DbOk
                    | Some v \<Rightarrow> if length v = d then DbOk
                                else DbError (ErrorObj ''different vector dimensions'')),
        insert_company_brain_embeddings :=
          (\<lambda>n row. case embedding row of
                      None \<Rightarrow> DbOk
                    | Some v \<Rightarrow> if length v = d then DbOk
                                else DbError (ErrorObj ''different vector dimensions''))\<rparr>"

text \<open>
  A runtime whose provider answers every text with status 200 and the body
  \<open>{ "embedding": {} }\<close>: an \<open>embedding\<close> object without \<open>values\<close>.
\<close>

definition valueless_runtime :: runtime where
  "valueless_runtime =
     \<lparr>VITE_GEMINI_API_KEY = Some ''key'', GEMINI_API_KEY = Some ''key'', createClient = None,
      fetch = (\<lambda>n t. Response True 200 ''OK'' (BodyValues None))\<rparr>"

definition project_record :: "string \<Rightarrow> string \<Rightarrow> string \<Rightarrow> vec option \<Rightarrow> ProjectEmbeddingData" where
  "project_record company project text v =
     \<lparr>content_type = project_metadata, content_id = Some project, content = text,
      metadata = None, embedding = v, project_id = project, company_id = company\<rparr>"

definition brain_record :: "string \<Rightarrow> string \<Rightarrow> vec option \<Rightarrow> CompanyBrainEmbedding" where
  "brain_record user text v =
     \<lparr>content_type = company_info, content_id = None, content = text,
      metadata = None, embedding = v, user_id = user\<rparr>"

definition empty_world :: world where
  "empty_world = \<lparr>project_embeddings = [], company_brain_embeddings = [], trace = []\<rparr>"

text \<open>
  Tables shared by the tenants \<open>acme\<close> and \<open>globex\<close>; the project table holds the
  record of project \<open>p1\<close> twice.
\<close>

definition shared_world :: world where
  "shared_world =
     \<lparr>project_embeddings =
        [project_record ''acme'' ''p1'' ''Project: Rocket'' (Some [1, 0]),
         project_record ''acme'' ''p1'' ''Project: Rocket'' (Some [1, 0]),
         project_record ''globex'' ''p9'' ''Project: Reactor'' (Some [1, 0])],
      company_brain_embeddings =
        [brain_record ''acme'' ''Company: Acme'' (Some [1, 0]),
         brain_record ''globex'' ''Company: Globex'' (Some [1, 0])],
      trace = []\<rparr>"

section \<open>Properties of the chunkers\<close>

lemma length_trim_le: "length (trim s) \<le> length s"
proof -
  have "length (trim s) \<le> length (dropWhile is_space s)"
    unfolding trim_def using length_dropWhile_le [of is_space "rev (dropWhile is_space s)"] by simp
  also have "\<dots> \<le> length s" by (rule length_dropWhile_le)
  finally show ?thesis .
qed

lemma trim_append_spaces:
  assumes "\<forall>c\<in>set ws. is_space c"
  shows "trim (s @ ws) = trim s"
proof (cases "\<forall>c\<in>set s. is_space c")
  case True
  with assms have a: "dropWhile is_space ws = []" "dropWhile is_space s = []" by auto
  have "dropWhile is_space (s @ ws) = []" using True assms by auto
  then show ?thesis by (simp only: trim_def a rev.simps dropWhile.simps)
next
  case False
  then have "dropWhile is_space (s @ ws) = dropWhile is_space s @ ws"
    by (auto simp: dropWhile_append)
  moreover have "dropWhile is_space (rev ws @ rev (dropWhile is_space s))
      = dropWhile is_space (rev (dropWhile is_space s))"
    by (rule dropWhile_append2) (use assms in auto)
  ultimately show ?thesis by (simp add: trim_def)
qed

lemma trim_blank_line: "trim (s @ blank_line) = trim s"
  by (rule trim_append_spaces) (simp add: blank_line_def is_space_def)

lemma trim_tidy: "tidy p \<Longrightarrow> trim p = p"
proof -
  assume t: "tidy p"
  then have 1: "dropWhile is_space p = p" by (cases p) (auto simp: tidy_def)
  from t have "dropWhile is_space (rev p) = rev p"
    by (cases "rev p") (auto simp: tidy_def last_rev hd_rev dest: arg_cong[where f=hd])
  with 1 show ?thesis by (simp add: trim_def)
qed

lemma join_split_blank_line: "join blank_line (split_blank_line piece s) = piece @ s"
proof (induction piece s rule: split_blank_line.induct)
  case (3 piece c d cs)
  then show ?case
    by (cases "split_blank_line [] cs") (auto simp: blank_line_def)
qed simp_all


lemma split_blank_line_nonempty: "split_blank_line piece s \<noteq> []"
  by (induction piece s rule: split_blank_line.induct) auto

lemma join_snoc: "join sep (xs @ [y]) = (if xs = [] then y else join sep xs @ sep @ y)"
  by (induction sep xs rule: join.induct) auto

lemma join_append:
  "xs \<noteq> [] \<Longrightarrow> ys \<noteq> [] \<Longrightarrow> join sep (xs @ ys) = join sep xs @ sep @ join sep ys"
  by (induction sep xs rule: join.induct) (auto simp: neq_Nil_conv)

lemma join_merge_last: "join sep (xs @ [a, b]) = join sep (xs @ [a @ sep @ b])"
  by (induction sep xs rule: join.induct) auto

lemma tidy_join:
  "ps \<noteq> [] \<Longrightarrow> \<forall>p\<in>set ps. tidy p \<Longrightarrow> tidy (join blank_line ps)"
proof (induction blank_line ps rule: join.induct)
  case (3 x y ys)
  then have "tidy x" "tidy (join blank_line (y # ys))" by auto
  then show ?case by (auto simp: tidy_def)
qed auto

lemma pending_snoc: "pending (qs @ [p]) = pending qs @ p @ blank_line"
  by (simp add: pending_def join_snoc)

lemma pending_Nil_iff: "pending qs = [] \<longleftrightarrow> qs = []"
  by (simp add: pending_def blank_line_def)

lemma trim_pending:
  "qs \<noteq> [] \<Longrightarrow> \<forall>q\<in>set qs. tidy q \<Longrightarrow> trim (pending qs) = join blank_line qs"
  by (simp add: pending_def trim_blank_line trim_tidy tidy_join)

lemma chunk_paragraphs_roundtrip:
  assumes "\<forall>p\<in>set ps. tidy p" "\<forall>q\<in>set qs. tidy q" "\<forall>c\<in>set chunks. tidy c" "qs @ ps \<noteq> []"
  shows "join blank_line (flush_paragraphs (chunk_paragraphs m ps (chunks, pending qs)))
           = join blank_line (chunks @ [join blank_line (qs @ ps)])
         \<and> (\<forall>c\<in>set (flush_paragraphs (chunk_paragraphs m ps (chunks, pending qs))). tidy c)"
  using assms
proof (induction ps arbitrary: qs chunks)
  case Nil
  then have q: "qs \<noteq> []" by simp
  with Nil have t: "trim (pending qs) = join blank_line qs" by (simp add: trim_pending)
  from q Nil have "tidy (join blank_line qs)" by (simp add: tidy_join)
  with t Nil show ?case by (auto simp: flush_paragraphs_def tidy_def)
next
  case (Cons p ps)
  show ?case
  proof (cases "int (length (pending qs)) + int (length p) > m \<and> pending qs \<noteq> []")
    case True
    then have q: "qs \<noteq> []" by (simp add: pending_Nil_iff)
    with Cons.prems have t: "trim (pending qs) = join blank_line qs" by (simp add: trim_pending)
    from q Cons.prems have tj: "tidy (join blank_line qs)" by (simp add: tidy_join)
    have step: "chunk_paragraphs m (p # ps) (chunks, pending qs)
        = chunk_paragraphs m ps (chunks @ [join blank_line qs], pending [p])"
      using True t by (simp add: pending_def)
    have ih: "join blank_line (flush_paragraphs (chunk_paragraphs m ps (chunks @ [join blank_line qs], pending [p])))
           = join blank_line ((chunks @ [join blank_line qs]) @ [join blank_line ([p] @ ps)])
         \<and> (\<forall>c\<in>set (flush_paragraphs (chunk_paragraphs m ps (chunks @ [join blank_line qs], pending [p]))). tidy c)"
      by (rule Cons.IH) (use Cons.prems tj in auto)
    have "join blank_line ((chunks @ [join blank_line qs]) @ [join blank_line ([p] @ ps)])
        = join blank_line (chunks @ [join blank_line (qs @ p # ps)])"
      using q by (simp add: join_merge_last join_append)
    with ih step show ?thesis by simp
  next
    case False
    have step: "chunk_paragraphs m (p # ps) (chunks, pending qs)
        = chunk_paragraphs m ps (chunks, pending (qs @ [p]))"
      using False by (auto simp: pending_snoc)
    have ih: "join blank_line (flush_paragraphs (chunk_paragraphs m ps (chunks, pending (qs @ [p]))))
           = join blank_line (chunks @ [join blank_line ((qs @ [p]) @ ps)])
         \<and> (\<forall>c\<in>set (flush_paragraphs (chunk_paragraphs m ps (chunks, pending (qs @ [p])))). tidy c)"
      by (rule Cons.IH) (use Cons.prems in auto)
    with step show ?thesis by simp
  qed
qed

lemma paragraphs_roundtrip:
  assumes "\<forall>p\<in>set (split_blank_line [] text). tidy p"
  shows "join blank_line (map trim (flush_paragraphs (chunk_paragraphs m (split_blank_line [] text) ([], [])))) = text"
proof -
  let ?res = "flush_paragraphs (chunk_paragraphs m (split_blank_line [] text) ([], pending []))"
  have r: "join blank_line ?res = join blank_line ([] @ [join blank_line ([] @ split_blank_line [] text)])
      \<and> (\<forall>c\<in>set ?res. tidy c)"
    by (rule chunk_paragraphs_roundtrip) (use assms in \<open>auto simp: split_blank_line_nonempty\<close>)
  then have "map trim ?res = ?res" by (simp add: map_idI trim_tidy)
  with r show ?thesis by (simp add: join_split_blank_line pending_def)
qed


lemma buffer_ok_trim:
  assumes "buffer_ok m P cur" "cur \<noteq> []"
  shows "within_bound m P (trim cur)"
proof -
  from assms obtain s where s: "cur = s @ blank_line" "s \<in> set P \<or> int (length s) \<le> m"
    by (auto simp: buffer_ok_def)
  have le: "length (trim s) \<le> length s" by (rule length_trim_le)
  show ?thesis
  proof (cases "int (length s) \<le> m")
    case True
    with le s show ?thesis by (simp add: within_bound_def trim_blank_line)
  next
    case False
    with s show ?thesis by (auto simp: within_bound_def trim_blank_line)
  qed
qed

lemma chunk_paragraphs_bound:
  assumes "set ps \<subseteq> set P" "\<forall>c\<in>set chunks. within_bound m P c" "buffer_ok m P cur"
  shows "(\<forall>c\<in>set (fst (chunk_paragraphs m ps (chunks, cur))). within_bound m P c)
         \<and> buffer_ok m P (snd (chunk_paragraphs m ps (chunks, cur)))"
  using assms
proof (induction ps arbitrary: chunks cur)
  case Nil
  then show ?case by simp
next
  case (Cons p ps)
  show ?case
  proof (cases "int (length cur) + int (length p) > m \<and> cur \<noteq> []")
    case True
    with Cons.prems have "within_bound m P (trim cur)" by (simp add: buffer_ok_trim)
    moreover have "buffer_ok m P ([] @ p @ blank_line)"
      using Cons.prems by (auto simp: buffer_ok_def)
    ultimately show ?thesis using True Cons.prems Cons.IH [of "chunks @ [trim cur]" "[] @ p @ blank_line"]
      by simp
  next
    case False
    have "buffer_ok m P (cur @ p @ blank_line)"
    proof (cases "cur = []")
      case True
      with Cons.prems show ?thesis by (auto simp: buffer_ok_def)
    next
      case False
      with \<open>\<not> (int (length cur) + int (length p) > m \<and> cur \<noteq> [])\<close>
      have "int (length (cur @ p)) \<le> m" by simp
      then have "\<exists>s. cur @ p @ blank_line = s @ blank_line \<and> (s \<in> set P \<or> int (length s) \<le> m)"
        by (intro exI [of _ "cur @ p"]) simp
      then show ?thesis by (simp add: buffer_ok_def)
    qed
    then show ?thesis using False Cons.prems Cons.IH [of chunks "cur @ p @ blank_line"]
      by auto
  qed
qed

lemma paragraphs_bound:
  assumes "c \<in> set (flush_paragraphs (chunk_paragraphs m (split_blank_line [] text) ([], [])))"
  shows "within_bound m (split_blank_line [] text) c"
proof -
  let ?P = "split_blank_line [] text"
  obtain chunks cur where st: "chunk_paragraphs m ?P ([], []) = (chunks, cur)"
    by (cases "chunk_paragraphs m ?P ([], [])")
  have "(\<forall>c\<in>set (fst (chunk_paragraphs m ?P ([], []))). within_bound m ?P c)
      \<and> buffer_ok m ?P (snd (chunk_paragraphs m ?P ([], [])))"
    by (rule chunk_paragraphs_bound) (simp_all add: buffer_ok_def)
  with st have inv: "\<forall>c\<in>set chunks. within_bound m ?P c" "buffer_ok m ?P cur" by simp_all
  show ?thesis
  proof (cases "c \<in> set chunks")
    case True
    with inv show ?thesis by simp
  next
    case False
    with assms st have c: "c = trim cur" "trim cur \<noteq> []"
      by (auto simp: flush_paragraphs_def split: if_splits)
    then have "cur \<noteq> []" by (auto simp: trim_def)
    with inv c show ?thesis by (simp add: buffer_ok_trim)
  qed
qed

lemma chunkText_within_bound:
  assumes "c \<in> set (chunkText text m)"
  shows "within_bound m (split_blank_line [] text) c"
  using assms paragraphs_bound [of c m "text"] by (simp add: chunkText_def)

lemma chunkProjectText_within_bound:
  assumes "c \<in> set (chunkProjectText text m)"
  shows "within_bound m (split_blank_line [] text) c"
  using assms paragraphs_bound [of c m "text"] by (simp add: chunkProjectText_def)

lemma split_sentences_plain:
  assumes "\<forall>c\<in>set s. \<not> is_sentence_end c"
  shows "split_sentences piece (s @ rest) = split_sentences (piece @ s) rest"
  using assms
proof (induction s arbitrary: piece)
  case Nil
  then show ?case by simp
next
  case (Cons c s)
  then have "sentence_break (c # s @ rest) = None"
    by (simp add: sentence_break_def)
  with Cons show ?case by simp
qed

lemma split_two_sentences:
  shows "split_sentences [] (replicate n CHR ''a'' @ ''. '' @ replicate k CHR ''b'' @ ''! c'')
       = [replicate n CHR ''a'', replicate k CHR ''b'', ''c'']"
proof -
  have a: "\<forall>c\<in>set (replicate n CHR ''a''). \<not> is_sentence_end c"
    and b: "\<forall>c\<in>set (replicate k CHR ''b''). \<not> is_sentence_end c"
    by (auto simp: is_sentence_end_def)
  have 1: "sentence_break (''. '' @ replicate k CHR ''b'' @ ''! c'') = Some 2"
    by (cases k) (simp_all add: sentence_break_def is_sentence_end_def is_space_def)
  have 2: "sentence_break ''! c'' = Some 2"
    by (simp add: sentence_break_def is_sentence_end_def is_space_def)
  have 3: "split_sentences [] ''c'' = [''c'']"
    by (simp add: sentence_break_def is_sentence_end_def)
  have "split_sentences [] (replicate n CHR ''a'' @ ''. '' @ replicate k CHR ''b'' @ ''! c'')
      = split_sentences (replicate n CHR ''a'') (''. '' @ replicate k CHR ''b'' @ ''! c'')"
    using split_sentences_plain [OF a, of "[]"] by simp
  also have "\<dots> = replicate n CHR ''a'' # split_sentences [] (replicate k CHR ''b'' @ ''! c'')"
    using 1 by simp
  also have "split_sentences [] (replicate k CHR ''b'' @ ''! c'')
      = split_sentences (replicate k CHR ''b'') ''! c''"
    using split_sentences_plain [OF b, of "[]"] by simp
  also have "\<dots> = replicate k CHR ''b'' # split_sentences [] ''c''"
    using 2 by simp
  finally show ?thesis using 3 by simp
qed


lemma sentence_overflow:
  assumes "0 < n" and "int n + 2 + int k = maxLength"
  shows "edge_chunkText (replicate n CHR ''a'' @ ''. '' @ replicate k CHR ''b'' @ ''! c'') maxLength
       = [replicate n CHR ''a'' @ ''. '' @ replicate k CHR ''b'' @ ''.'', ''c.'']"
proof -
  let ?A = "replicate n CHR ''a''" and ?B = "replicate k CHR ''b''"
  have t: "tidy (?A @ ''. '' @ ?B @ ''.'')"
    using assms(1) by (cases n) (simp_all add: tidy_def is_space_def)
  have "trim ((?A @ ''. '' @ ?B @ ''.'') @ '' '') = trim (?A @ ''. '' @ ?B @ ''.'')"
    by (rule trim_append_spaces) (simp add: is_space_def)
  with t have tr: "trim (?A @ ''. '' @ ?B @ ''. '') = ?A @ ''. '' @ ?B @ ''.''"
    by (simp add: trim_tidy)
  have c: "trim ''c. '' = ''c.''"
    by (simp add: trim_def is_space_def)
  have "chunk_sentences maxLength [?A, ?B, ''c''] ([], [])
      = ([trim (?A @ ''. '' @ ?B @ ''. '')], ''c. '')"
    using assms by simp
  then show ?thesis
    unfolding edge_chunkText_def split_two_sentences
    using tr c assms by simp
qed

text \<open>
  C6: every chunk has at most \<open>maxChunkSize\<close> characters, except a chunk that is a single
  paragraph or sentence which itself is longer. The paragraph chunkers keep this bound
  (\<open>chunkText_within_bound\<close>, \<open>chunkProjectText_within_bound\<close>). The sentence chunker does
  not: it tests the length before it appends \<open>'. '\<close>, so two sentences that fill the limit
  exactly end up in one chunk that is one character too long (\<open>sentence_overflow\<close>). Of
  the text \<open>aaaa. bbbb! c\<close> and the limit 10 it makes a first chunk of two sentences and
  11 characters; of a text of 1003 characters and the default limit 1000, one of 1001.
\<close>

theorem sentence_chunk_exceeds_limit:
  "edge_chunkText ''aaaa. bbbb! c'' 10 = [''aaaa. bbbb.'', ''c.'']
   \<and> split_sentences [] ''aaaa. bbbb! c'' = [''aaaa'', ''bbbb'', ''c'']
   \<and> int (length ''aaaa. bbbb.'') = 11
   \<and> edge_chunkText (replicate 500 CHR ''a'' @ ''. '' @ replicate 498 CHR ''b'' @ ''! c'') 1000
       = [replicate 500 CHR ''a'' @ ''. '' @ replicate 498 CHR ''b'' @ ''.'', ''c.'']
   \<and> length (replicate 500 CHR ''a'' @ ''. '' @ replicate 498 CHR ''b'' @ ''.'') = 1001"
proof -
  have "(0::nat) < 500" and "int 500 + 2 + int 498 = 1000" by simp_all
  then have "edge_chunkText (replicate 500 CHR ''a'' @ ''. '' @ replicate 498 CHR ''b'' @ ''! c'') 1000
       = [replicate 500 CHR ''a'' @ ''. '' @ replicate 498 CHR ''b'' @ ''.'', ''c.'']"
    by (rule sentence_overflow)
  moreover have "edge_chunkText ''aaaa. bbbb! c'' 10 = [''aaaa. bbbb.'', ''c.'']
      \<and> split_sentences [] ''aaaa. bbbb! c'' = [''aaaa'', ''bbbb'', ''c'']"
    by (simp add: edge_chunkText_def sentence_break_def is_sentence_end_def is_space_def trim_def)
  ultimately show ?thesis by simp
qed

lemma chunkText_empty: "chunkText [] m = []"
  by (simp add: chunkText_def flush_paragraphs_def blank_line_def trim_def is_space_def)

lemma chunkProjectText_empty: "chunkProjectText [] m = []"
  by (simp add: chunkProjectText_def flush_paragraphs_def blank_line_def trim_def is_space_def)

text \<open>
  C7, as stated: the chunks of the paragraph chunker, trimmed and rejoined with the
  blank line, give back the text. It fails where a paragraph ends with white space: the
  chunker trims it away.
\<close>

theorem chunks_rejoined_counterexample:
  "join blank_line (map trim (chunkText (''a '' @ blank_line @ ''b'') 2)) = ''a'' @ blank_line @ ''b''
   \<and> ''a'' @ blank_line @ ''b'' \<noteq> ''a '' @ blank_line @ ''b''"
  by (simp add: chunkText_def flush_paragraphs_def blank_line_def trim_def is_space_def)

text \<open>
  C7, amended: for every text that is empty or whose paragraphs (the pieces between the
  blank-line separators) are all non-empty and neither begin nor end with white space,
  and for every \<open>maxChunkSize\<close>, the chunks of \<open>chunkText\<close> and of \<open>chunkProjectText\<close>,
  trimmed and rejoined with the blank line, give back the text.
\<close>

theorem chunks_rejoined_tidy:
  assumes "text = [] \<or> (\<forall>p\<in>set (split_blank_line [] text). tidy p)"
  shows "join blank_line (map trim (chunkText text maxChunkSize)) = text
       \<and> join blank_line (map trim (chunkProjectText text maxChunkSize)) = text"
proof (cases "text = []")
  case True
  then show ?thesis by (simp add: chunkText_empty chunkProjectText_empty)
next
  case False
  with assms have "\<forall>p\<in>set (split_blank_line [] text). tidy p" by simp
  from paragraphs_roundtrip [OF this, of maxChunkSize] show ?thesis
    by (simp add: chunkText_def chunkProjectText_def)
qed

text \<open>C7, amended, on the text \<open>a\n\nb\<close> with the limit 2, which gives two chunks.\<close>

theorem chunks_rejoined_tidy_witness:
  "join blank_line (map trim (chunkText (''a'' @ blank_line @ ''b'') 2)) = ''a'' @ blank_line @ ''b''
   \<and> join blank_line (map trim (chunkProjectText (''a'' @ blank_line @ ''b'') 2)) = ''a'' @ blank_line @ ''b''"
proof -
  have "''a'' @ blank_line @ ''b'' = []
      \<or> (\<forall>p\<in>set (split_blank_line [] (''a'' @ blank_line @ ''b'')). tidy p)"
    by (simp add: blank_line_def tidy_def is_space_def)
  then show ?thesis by (rule chunks_rejoined_tidy)
qed

lemma edge_chunkText_empty: "edge_chunkText [] m = (if 0 \<le> m then [[]] else [''.''])"
  by (simp add: edge_chunkText_def trim_def is_space_def)

text \<open>
  C8, as stated: chunking the empty string yields no chunks, in the paragraph chunker and
  in the sentence chunker. The sentence chunker returns one chunk, the empty string.
\<close>

theorem sentence_chunker_empty_counterexample:
  "edge_chunkText [] 1000 = [[]] \<and> [[]] \<noteq> ([] :: string list)"
  by (simp add: edge_chunkText_def)

text \<open>
  C8, amended: chunking the empty string yields no chunks in the paragraph chunkers
  \<open>chunkText\<close> and \<open>chunkProjectText\<close>, for every \<open>maxChunkSize\<close>. The sentence chunker
  returns every text of at most \<open>maxLength\<close> characters as its only chunk, so for the
  empty string and every \<open>maxLength\<close> from 0 on it returns one chunk, the empty string.
\<close>

theorem empty_text_chunks:
  "chunkText [] maxChunkSize = []
   \<and> chunkProjectText [] maxChunkSize = []
   \<and> (int (length text) \<le> maxLength \<longrightarrow> edge_chunkText text maxLength = [text])"
  by (simp add: chunkText_empty chunkProjectText_empty edge_chunkText_def)

text \<open>C8, amended, on the empty string with the limit 0.\<close>

theorem empty_text_chunks_witness:
  "chunkText [] 0 = [] \<and> chunkProjectText [] 0 = [] \<and> edge_chunkText [] 0 = [[]]"
proof -
  have "int (length ([] :: string)) \<le> 0" by simp
  with empty_text_chunks [of 0 "[]" 0] show ?thesis by blast
qed

section \<open>Properties of store, delete and search\<close>

lemmas io_defs = return_io_def throw_io_def bind_io_def try_catch_def
  console_error_def console_warn_def console_log_def emit_def

lemma generateEmbedding_cases:
  obtains (failed) m evs where "generateEmbedding rt text w =
        (Returns \<lparr>resp_embedding = Some [], resp_error = Some m\<rparr>, w\<lparr>trace := trace w @ evs\<rparr>)"
        "\<forall>t. Insert t \<notin> set evs \<and> Rpc t \<notin> set evs \<and> Delete t \<notin> set evs" "evs \<noteq> []"
  | (embedded) v where "generateEmbedding rt text w =
        (Returns \<lparr>resp_embedding = v, resp_error = None\<rparr>, w\<lparr>trace := trace w @ [Fetch text]\<rparr>)"
proof (cases "truthy (VITE_GEMINI_API_KEY rt)")
  case False
  then have "generateEmbedding rt text w =
        (Returns \<lparr>resp_embedding = Some [], resp_error = Some ''Gemini API key not configured''\<rparr>,
         w\<lparr>trace := trace w @ [ConsoleWarn ''Gemini API key not configured'']\<rparr>)"
    by (simp add: generateEmbedding_def generateEmbedding_try_def io_defs)
  then show ?thesis by (rule failed) simp_all
next
  case True
  show ?thesis
  proof (cases "fetch rt (length (trace w)) text")
    case (FetchThrows e)
    with True have "generateEmbedding rt text w =
        (Returns \<lparr>resp_embedding = Some [], resp_error = Some (error_message e)\<rparr>,
         w\<lparr>trace := trace w @ [Fetch text, ConsoleError ''Error generating embedding:'']\<rparr>)"
      by (simp add: generateEmbedding_def generateEmbedding_try_def io_defs)
    then show ?thesis by (rule failed) simp_all
  next
    case (Response ok status statusText body)
    show ?thesis
    proof (cases ok)
      case False
      with True Response have "generateEmbedding rt text w =
        (Returns \<lparr>resp_embedding = Some [],
                  resp_error = Some (error_message (ErrorObj (''Gemini API error: '' @ string_of_nat status)))\<rparr>,
         w\<lparr>trace := trace w @ [Fetch text, ConsoleError ''Error generating embedding:'']\<rparr>)"
        by (simp add: generateEmbedding_def generateEmbedding_try_def io_defs)
      then show ?thesis by (rule failed) simp_all
    next
      case isok: True
      show ?thesis
      proof (cases body)
        case (BodyThrows e)
        with True Response isok have "generateEmbedding rt text w =
          (Returns \<lparr>resp_embedding = Some [], resp_error = Some (error_message e)\<rparr>,
           w\<lparr>trace := trace w @ [Fetch text, ConsoleError ''Error generating embedding:'']\<rparr>)"
          by (simp add: generateEmbedding_def generateEmbedding_try_def io_defs)
        then show ?thesis by (rule failed) simp_all
      next
        case (BodyValues v)
        with True Response isok have "generateEmbedding rt text w =
          (Returns \<lparr>resp_embedding = v, resp_error = None\<rparr>, w\<lparr>trace := trace w @ [Fetch text]\<rparr>)"
          by (simp add: generateEmbedding_def generateEmbedding_try_def io_defs)
        then show ?thesis by (rule embedded)
      qed
    qed
  qed
qed



lemmas run_defs = storeProjectEmbedding_def storeEmbedding_def deleteProjectEmbeddings_def
  deleteProjectEmbeddingsByType_def searchProjectContent_def searchSimilarContent_def
  embedding_or_generate_def generateEmbedding_def generateEmbedding_try_def
  insert_into_project_embeddings_def insert_into_company_brain_embeddings_def
  delete_from_project_embeddings_def delete_from_company_brain_embeddings_def
  rpc_match_project_documents_def rpc_match_company_brain_documents_def
  data_or_empty_def truthy_def error_message_def io_defs

lemmas scenario_defs = keyless_runtime_def picky_runtime_def rejected_texts_def accepting_db_def
  project_record_def brain_record_def empty_world_def shared_world_def
  named_project_def bare_metadata_def named_brain_def

lemmas match_defs = match_company_brain_documents_def match_project_documents_def rank_matches_def
  List.map_filter_def cosine_similarity_def dot_def

lemma client_fails_iff:
  "client_fails rt text w \<longleftrightarrow>
     (\<exists>m w'. generateEmbedding rt text w = (Returns \<lparr>resp_embedding = Some [], resp_error = Some m\<rparr>, w')
        \<and> m \<noteq> [])"
  by (rule generateEmbedding_cases [of rt "text" w]) (auto simp: client_fails_def truthy_def)


text \<open>
  What makes the client fail: no provider key, a \<open>fetch\<close> that throws, a response that is
  not \<open>ok\<close>, or a body that cannot be read; where the thrown value carries the message,
  the message is not empty. A body whose \<open>embedding\<close> object has no \<open>values\<close> is not a
  failure of the client.
\<close>

lemma client_fails_causes:
  "client_fails rt text w \<longleftrightarrow>
     \<not> truthy (VITE_GEMINI_API_KEY rt)
     \<or> (case fetch rt (length (trace w)) text of
           FetchThrows e \<Rightarrow> error_message e \<noteq> []
         | Response ok code reason payload \<Rightarrow>
             \<not> ok \<or> (case payload of BodyThrows e \<Rightarrow> error_message e \<noteq> [] | BodyValues v \<Rightarrow> False))"
  by (auto simp: client_fails_def generateEmbedding_def generateEmbedding_try_def io_defs
        truthy_def error_message_def split: fetch_result.splits response_body.splits)

lemma embedding_or_generate_cases:
  obtains (failed) m evs where
      "given = None" "client_fails rt text w" 
      "embedding_or_generate rt given text w =
         (Returns (Inl \<lparr>success = False, error = Some m\<rparr>), w\<lparr>trace := trace w @ evs\<rparr>)"
      "\<forall>t. Insert t \<notin> set evs \<and> Rpc t \<notin> set evs \<and> Delete t \<notin> set evs"
  | (vector) emb evs where
      "given = None \<longrightarrow> \<not> client_fails rt text w"
      "embedding_or_generate rt given text w = (Returns (Inr emb), w\<lparr>trace := trace w @ evs\<rparr>)"
      "given \<noteq> None \<longrightarrow> emb = given \<and> evs = []"
      "\<forall>t. Insert t \<notin> set evs \<and> Rpc t \<notin> set evs \<and> Delete t \<notin> set evs"
proof (cases given)
  case (Some v)
  then have "embedding_or_generate rt given text w = (Returns (Inr (Some v)), w\<lparr>trace := trace w @ []\<rparr>)"
    by (simp add: embedding_or_generate_def io_defs)
  with Some show ?thesis by (intro vector [of "Some v" "[]"]) simp_all
next
  case None
  show ?thesis
  proof (rule generateEmbedding_cases [of rt "text" w])
    fix m evs
    assume g: "generateEmbedding rt text w =
        (Returns \<lparr>resp_embedding = Some [], resp_error = Some m\<rparr>, w\<lparr>trace := trace w @ evs\<rparr>)"
      and evs: "\<forall>t. Insert t \<notin> set evs \<and> Rpc t \<notin> set evs \<and> Delete t \<notin> set evs"
    show thesis
    proof (cases "m = []")
      case True
      with g None have "embedding_or_generate rt given text w = (Returns (Inr (Some [])), w\<lparr>trace := trace w @ evs\<rparr>)"
        by (simp add: embedding_or_generate_def io_defs truthy_def)
      moreover from g True have "\<not> client_fails rt text w" by (simp add: client_fails_def truthy_def)
      ultimately show ?thesis using None evs by (intro vector [of "Some []" evs]) simp_all
    next
      case False
      with g None have "embedding_or_generate rt given text w =
          (Returns (Inl \<lparr>success = False, error = Some m\<rparr>), w\<lparr>trace := trace w @ evs\<rparr>)"
        by (simp add: embedding_or_generate_def io_defs truthy_def)
      moreover from g False have "client_fails rt text w" by (simp add: client_fails_def truthy_def)
      ultimately show ?thesis using None evs by (intro failed [of m evs]) simp_all
    qed
  next
    fix v
    assume g: "generateEmbedding rt text w =
        (Returns \<lparr>resp_embedding = v, resp_error = None\<rparr>, w\<lparr>trace := trace w @ [Fetch text]\<rparr>)"
    with None have "embedding_or_generate rt given text w = (Returns (Inr v), w\<lparr>trace := trace w @ [Fetch text]\<rparr>)"
      by (simp add: embedding_or_generate_def io_defs truthy_def)
    moreover from g have "\<not> client_fails rt text w" by (simp add: client_fails_def truthy_def)
    ultimately show ?thesis using None by (intro vector [of v "[Fetch text]"]) simp_all
  qed
qed

lemma storeProjectEmbedding_cases:
  obtains (unavailable) m evs where
      "embedding data = None" "client_fails rt (content data) w"
      "storeProjectEmbedding rt sb data w =
         (Returns \<lparr>success = False, error = Some m\<rparr>, w\<lparr>trace := trace w @ evs\<rparr>)"
      "\<forall>t. Insert t \<notin> set evs \<and> Rpc t \<notin> set evs \<and> Delete t \<notin> set evs"
  | (inserted) emb evs where
      "embedding data = None \<longrightarrow> \<not> client_fails rt (content data) w"
      "embedding data \<noteq> None \<longrightarrow> emb = embedding data"
      "insert_project_embeddings sb (length (trace w @ evs)) (project_row data emb) = DbOk"
      "storeProjectEmbedding rt sb data w =
         (Returns \<lparr>success = True, error = None\<rparr>,
          w\<lparr>trace := trace w @ evs @ [Insert ''project_embeddings''],
            project_embeddings := project_embeddings w @ [project_row data emb]\<rparr>)"
  | (rejected) m evs where
      "embedding data = None \<longrightarrow> \<not> client_fails rt (content data) w"
      "storeProjectEmbedding rt sb data w =
         (Returns \<lparr>success = False, error = Some m\<rparr>, w\<lparr>trace := trace w @ evs\<rparr>)"
proof (rule embedding_or_generate_cases [of "embedding data" rt "content data" w])
  fix m evs
  assume "embedding data = None" "client_fails rt (content data) w"
    "embedding_or_generate rt (embedding data) (content data) w =
       (Returns (Inl \<lparr>success = False, error = Some m\<rparr>), w\<lparr>trace := trace w @ evs\<rparr>)"
    "\<forall>t. Insert t \<notin> set evs \<and> Rpc t \<notin> set evs \<and> Delete t \<notin> set evs"
  then show thesis
    by (intro unavailable [of m evs]) (simp_all add: storeProjectEmbedding_def io_defs)
next
  fix emb evs
  assume a: "embedding data = None \<longrightarrow> \<not> client_fails rt (content data) w"
    "embedding_or_generate rt (embedding data) (content data) w = (Returns (Inr emb), w\<lparr>trace := trace w @ evs\<rparr>)"
    "embedding data \<noteq> None \<longrightarrow> emb = embedding data \<and> evs = []"
  show thesis
  proof (cases "insert_project_embeddings sb (length (trace w @ evs)) (project_row data emb)")
    case DbOk
    with a show ?thesis
      by (intro inserted [of emb evs])
         (simp_all add: storeProjectEmbedding_def insert_into_project_embeddings_def io_defs project_row_def)
  next
    case (DbError e)
    with a show ?thesis
      by (intro rejected [of "error_message e" "evs @ [Insert ''project_embeddings'', ConsoleError ''Error storing project embedding:'']"])
         (simp_all add: storeProjectEmbedding_def insert_into_project_embeddings_def io_defs project_row_def)
  next
    case (DbThrows e)
    with a show ?thesis
      by (intro rejected [of "error_message e" "evs @ [Insert ''project_embeddings'', ConsoleError ''Error storing project embedding:'']"])
         (simp_all add: storeProjectEmbedding_def insert_into_project_embeddings_def io_defs project_row_def)
  qed
qed

lemma storeEmbedding_cases:
  obtains (unavailable) m evs where
      "embedding data = None" "client_fails rt (content data) w"
      "storeEmbedding rt sb data w =
         (Returns \<lparr>success = False, error = Some m\<rparr>, w\<lparr>trace := trace w @ evs\<rparr>)"
      "\<forall>t. Insert t \<notin> set evs \<and> Rpc t \<notin> set evs \<and> Delete t \<notin> set evs"
  | (inserted) emb evs where
      "embedding data = None \<longrightarrow> \<not> client_fails rt (content data) w"
      "embedding data \<noteq> None \<longrightarrow> emb = embedding data"
      "insert_company_brain_embeddings sb (length (trace w @ evs)) (brain_row data emb) = DbOk"
      "storeEmbedding rt sb data w =
         (Returns \<lparr>success = True, error = None\<rparr>,
          w\<lparr>trace := trace w @ evs @ [Insert ''company_brain_embeddings''],
            company_brain_embeddings := company_brain_embeddings w @ [brain_row data emb]\<rparr>)"
  | (rejected) m evs where
      "embedding data = None \<longrightarrow> \<not> client_fails rt (content data) w"
      "storeEmbedding rt sb data w =
         (Returns \<lparr>success = False, error = Some m\<rparr>, w\<lparr>trace := trace w @ evs\<rparr>)"
proof (rule embedding_or_generate_cases [of "embedding data" rt "content data" w])
  fix m evs
  assume "embedding data = None" "client_fails rt (content data) w"
    "embedding_or_generate rt (embedding data) (content data) w =
       (Returns (Inl \<lparr>success = False, error = Some m\<rparr>), w\<lparr>trace := trace w @ evs\<rparr>)"
    "\<forall>t. Insert t \<notin> set evs \<and> Rpc t \<notin> set evs \<and> Delete t \<notin> set evs"
  then show thesis
    by (intro unavailable [of m evs]) (simp_all add: storeEmbedding_def io_defs)
next
  fix emb evs
  assume a: "embedding data = None \<longrightarrow> \<not> client_fails rt (content data) w"
    "embedding_or_generate rt (embedding data) (content data) w = (Returns (Inr emb), w\<lparr>trace := trace w @ evs\<rparr>)"
    "embedding data \<noteq> None \<longrightarrow> emb = embedding data \<and> evs = []"
  show thesis
  proof (cases "insert_company_brain_embeddings sb (length (trace w @ evs)) (brain_row data emb)")
    case DbOk
    with a show ?thesis
      by (intro inserted [of emb evs])
         (simp_all add: storeEmbedding_def insert_into_company_brain_embeddings_def io_defs brain_row_def)
  next
    case (DbError e)
    with a show ?thesis
      by (intro rejected [of "error_message e" "evs @ [Insert ''company_brain_embeddings'', ConsoleError ''Error storing embedding:'']"])
         (simp_all add: storeEmbedding_def insert_into_company_brain_embeddings_def io_defs brain_row_def)
  next
    case (DbThrows e)
    with a show ?thesis
      by (intro rejected [of "error_message e" "evs @ [Insert ''company_brain_embeddings'', ConsoleError ''Error storing embedding:'']"])
         (simp_all add: storeEmbedding_def insert_into_company_brain_embeddings_def io_defs brain_row_def)
  qed
qed


lemma deleteProjectEmbeddingsByType_cases:
  obtains (deleted)
      "delete_rows sb (length (trace w)) ''project_embeddings'' = DbOk"
      "deleteProjectEmbeddingsByType sb projectId contentType w =
         (Returns \<lparr>success = True, error = None\<rparr>,
          w\<lparr>trace := trace w @ [Delete ''project_embeddings''],
            project_embeddings :=
              filter (\<lambda>r. \<not> (project_id r = projectId \<and> content_type r = contentType))
                (project_embeddings w)\<rparr>)"
  | (rejected) m where
      "delete_rows sb (length (trace w)) ''project_embeddings'' \<noteq> DbOk"
      "deleteProjectEmbeddingsByType sb projectId contentType w =
         (Returns \<lparr>success = False, error = Some m\<rparr>,
          w\<lparr>trace := trace w @ [Delete ''project_embeddings'',
                                 ConsoleError ''Error deleting project embeddings by type:'']\<rparr>)"
proof (cases "delete_rows sb (length (trace w)) ''project_embeddings''")
  case DbOk
  then show ?thesis
    by (intro deleted)
       (simp_all add: deleteProjectEmbeddingsByType_def delete_from_project_embeddings_def io_defs)
next
  case (DbError e)
  then show ?thesis
    by (intro rejected [of "error_message e"])
       (simp_all add: deleteProjectEmbeddingsByType_def delete_from_project_embeddings_def io_defs)
next
  case (DbThrows e)
  then show ?thesis
    by (intro rejected [of "error_message e"])
       (simp_all add: deleteProjectEmbeddingsByType_def delete_from_project_embeddings_def io_defs)
qed

lemma deleteProjectEmbeddings_cases:
  obtains (deleted)
      "delete_rows sb (length (trace w)) ''project_embeddings'' = DbOk"
      "deleteProjectEmbeddings sb projectId w =
         (Returns \<lparr>success = True, error = None\<rparr>,
          w\<lparr>trace := trace w @ [Delete ''project_embeddings''],
            project_embeddings := filter (\<lambda>r. \<not> project_id r = projectId) (project_embeddings w)\<rparr>)"
  | (rejected) m where
      "delete_rows sb (length (trace w)) ''project_embeddings'' \<noteq> DbOk"
      "deleteProjectEmbeddings sb projectId w =
         (Returns \<lparr>success = False, error = Some m\<rparr>,
          w\<lparr>trace := trace w @ [Delete ''project_embeddings'',
                                 ConsoleError ''Error deleting project embeddings:'']\<rparr>)"
proof (cases "delete_rows sb (length (trace w)) ''project_embeddings''")
  case DbOk
  then show ?thesis
    by (intro deleted)
       (simp_all add: deleteProjectEmbeddings_def delete_from_project_embeddings_def io_defs)
next
  case (DbError e)
  then show ?thesis
    by (intro rejected [of "error_message e"])
       (simp_all add: deleteProjectEmbeddings_def delete_from_project_embeddings_def io_defs)
next
  case (DbThrows e)
  then show ?thesis
    by (intro rejected [of "error_message e"])
       (simp_all add: deleteProjectEmbeddings_def delete_from_project_embeddings_def io_defs)
qed


lemma calls_since_append [simp]: "calls_since w (w\<lparr>trace := trace w @ evs\<rparr>) = evs"
  by (simp add: calls_since_def)


text \<open>
  For every record without \<open>embedding\<close>, when the embedding client reports an error (no
  provider key, a \<open>fetch\<close> that throws, a response that is not a success, a body that
  cannot be read), \<open>storeProjectEmbedding\<close> and \<open>storeEmbedding\<close> return
  \<open>{ success: false, error }\<close> without throwing, issue no \<open>insert\<close> and leave both tables
  as they were.
\<close>

lemma store_reports_client_failure:
  "(embedding pdata = None \<and> client_fails rt (content pdata) w
      \<longrightarrow> fails_without_insert (storeProjectEmbedding rt sb pdata) w)
   \<and> (embedding bdata = None \<and> client_fails rt (content bdata) w
      \<longrightarrow> fails_without_insert (storeEmbedding rt sb bdata) w)"
proof (intro conjI impI)
  assume "embedding pdata = None \<and> client_fails rt (content pdata) w"
  then show "fails_without_insert (storeProjectEmbedding rt sb pdata) w"
    by (cases rule: storeProjectEmbedding_cases [of pdata rt w sb])
       (auto simp: fails_without_insert_def)
next
  assume "embedding bdata = None \<and> client_fails rt (content bdata) w"
  then show "fails_without_insert (storeEmbedding rt sb bdata) w"
    by (cases rule: storeEmbedding_cases [of bdata rt w sb])
       (auto simp: fails_without_insert_def)
qed


text \<open>
  C2: for every record without \<open>embedding\<close>, when the embedding client fails (missing API
  key, non-success status, or malformed payload), the store functions return
  \<open>{ success: false, error }\<close> and insert no row. The code does so for the failures the
  client reports (\<open>store_reports_client_failure\<close>), but one malformed payload escapes the
  client: for a response with status 200 whose \<open>embedding\<close> object has no \<open>values\<close>,
  \<open>generateEmbedding\<close> returns \<open>{ embedding: undefined }\<close> and no error, and both store
  functions go on to insert a row without vector and return \<open>{ success: true }\<close>.
\<close>

theorem store_accepts_valueless_body:
  "\<not> client_fails valueless_runtime ''Project: Rocket'' empty_world
   \<and> storeProjectEmbedding valueless_runtime (documented_db 768)
       (project_record ''acme'' ''p1'' ''Project: Rocket'' None) empty_world
     = (Returns \<lparr>success = True, error = None\<rparr>,
        \<lparr>project_embeddings = [project_record ''acme'' ''p1'' ''Project: Rocket'' None],
         company_brain_embeddings = [],
         trace = [Fetch ''Project: Rocket'', Insert ''project_embeddings'']\<rparr>)
   \<and> storeEmbedding valueless_runtime (documented_db 768)
       (brain_record ''acme'' ''Company: Acme'' None) empty_world
     = (Returns \<lparr>success = True, error = None\<rparr>,
        \<lparr>project_embeddings = [],
         company_brain_embeddings = [brain_record ''acme'' ''Company: Acme'' None],
         trace = [Fetch ''Company: Acme'', Insert ''company_brain_embeddings'']\<rparr>)"
  by (simp add: client_fails_def run_defs scenario_defs valueless_runtime_def documented_db_def)

text \<open>
  C3: when embedding the query text fails, \<open>searchSimilarContent\<close> and
  \<open>searchProjectContent\<close> return the empty list without throwing, issue no ranking query
  and write the error to the console.
\<close>

theorem search_degrades_to_empty:
  assumes "client_fails rt query w"
  shows "degrades_to_empty (searchSimilarContent rt sb userId query threshold limit) w
       \<and> degrades_to_empty (searchProjectContent rt sb projectId query threshold limit) w"
proof (rule generateEmbedding_cases [of rt query w])
  fix m evs
  assume g: "generateEmbedding rt query w =
        (Returns \<lparr>resp_embedding = Some [], resp_error = Some m\<rparr>, w\<lparr>trace := trace w @ evs\<rparr>)"
    and evs: "\<forall>t. Insert t \<notin> set evs \<and> Rpc t \<notin> set evs \<and> Delete t \<notin> set evs"
  from assms g have m: "m \<noteq> []" by (simp add: client_fails_def truthy_def)
  have "searchSimilarContent rt sb userId query threshold limit w =
      (Returns [], w\<lparr>trace := trace w @ (evs @ [ConsoleError ''Error generating query embedding:''])\<rparr>)"
    using g m by (simp add: searchSimilarContent_def io_defs truthy_def)
  moreover have "searchProjectContent rt sb projectId query threshold limit w =
      (Returns [], w\<lparr>trace := trace w @ (evs @ [ConsoleError ''Error generating query embedding:''])\<rparr>)"
    using g m by (simp add: searchProjectContent_def io_defs truthy_def)
  ultimately show ?thesis using evs by (simp add: degrades_to_empty_def)
next
  fix v
  assume "generateEmbedding rt query w =
        (Returns \<lparr>resp_embedding = v, resp_error = None\<rparr>, w\<lparr>trace := trace w @ [Fetch query]\<rparr>)"
  with assms show ?thesis by (simp add: client_fails_def truthy_def)
qed



text \<open>C3 on a search without provider key, over tables that hold matching rows.\<close>

theorem search_degrades_to_empty_witness:
  "degrades_to_empty (searchSimilarContent keyless_runtime accepting_db ''acme'' ''What industry is Acme in?'' 0.78 10) shared_world
   \<and> degrades_to_empty (searchProjectContent keyless_runtime accepting_db ''p1'' ''What industry is Acme in?'' 0.78 10) shared_world"
proof -
  have "client_fails keyless_runtime ''What industry is Acme in?'' shared_world"
    by (simp add: client_fails_def run_defs scenario_defs)
  then show ?thesis by (rule search_degrades_to_empty)
qed


lemma rank_matches_subset:
  "fst ` set (rank_matches q th cnt candidates emb) \<subseteq> set candidates"
proof (cases q)
  case None
  then show ?thesis by (simp add: rank_matches_def)
next
  case (Some v)
  have "set (take (nat cnt) xs) \<subseteq> set xs" for xs :: "('a \<times> real) list"
    by (rule set_take_subset)
  then have "fst ` set (rank_matches q th cnt candidates emb)
      \<subseteq> fst ` set (List.map_filter (\<lambda>r. map_option (\<lambda>u. (r, cosine_similarity v u)) (emb r)) (rev candidates))"
    using Some by (auto simp: rank_matches_def dest!: in_set_takeD)
  also have "\<dots> \<subseteq> set candidates"
    by (auto simp: List.map_filter_def)
  finally show ?thesis .
qed

lemma searchProjectContent_scope:
  assumes "searchProjectContent rt sb projectId query threshold limit w = (Returns matches, w')"
    and "r \<in> fst ` set matches"
  shows "r \<in> set (project_embeddings w) \<and> project_id r = projectId"
proof -
  have sub: "fst ` set (match_project_documents q projectId threshold limit rows)
      \<subseteq> {r \<in> set rows. project_id r = projectId}" for q rows
    using rank_matches_subset [of q threshold limit "filter (\<lambda>r. project_id r = projectId) rows" embedding]
    by (auto simp: match_project_documents_def)
  show ?thesis
  proof (rule generateEmbedding_cases [of rt query w])
    fix m evs
    assume g: "generateEmbedding rt query w =
        (Returns \<lparr>resp_embedding = Some [], resp_error = Some m\<rparr>, w\<lparr>trace := trace w @ evs\<rparr>)"
    show ?thesis
    proof (cases "call_rpc sb (length (trace w @ evs)) ''match_project_documents''")
      case RpcData
      with g assms sub [of "Some []" "project_embeddings w"] show ?thesis
        by (auto simp: searchProjectContent_def rpc_match_project_documents_def io_defs
              data_or_empty_def split: if_splits)
    qed (use g assms in \<open>auto simp: searchProjectContent_def rpc_match_project_documents_def io_defs
              data_or_empty_def split: if_splits\<close>)
  next
    fix v
    assume g: "generateEmbedding rt query w =
        (Returns \<lparr>resp_embedding = v, resp_error = None\<rparr>, w\<lparr>trace := trace w @ [Fetch query]\<rparr>)"
    show ?thesis
    proof (cases "call_rpc sb (length (trace w @ [Fetch query])) ''match_project_documents''")
      case RpcData
      with g assms sub [of v "project_embeddings w"] show ?thesis
        by (auto simp: searchProjectContent_def rpc_match_project_documents_def io_defs
              data_or_empty_def truthy_def split: if_splits)
    qed (use g assms in \<open>auto simp: searchProjectContent_def rpc_match_project_documents_def io_defs
              data_or_empty_def truthy_def split: if_splits\<close>)
  qed
qed

lemma searchSimilarContent_scope:
  assumes "searchSimilarContent rt sb userId query threshold limit w = (Returns matches, w')"
    and "r \<in> fst ` set matches"
  shows "r \<in> set (company_brain_embeddings w) \<and> user_id r = userId"
proof -
  have sub: "fst ` set (match_company_brain_documents q userId threshold limit rows)
      \<subseteq> {r \<in> set rows. user_id r = userId}" for q rows
    using rank_matches_subset [of q threshold limit "filter (\<lambda>r. user_id r = userId) rows" embedding]
    by (auto simp: match_company_brain_documents_def)
  show ?thesis
  proof (rule generateEmbedding_cases [of rt query w])
    fix m evs
    assume g: "generateEmbedding rt query w =
        (Returns \<lparr>resp_embedding = Some [], resp_error = Some m\<rparr>, w\<lparr>trace := trace w @ evs\<rparr>)"
    show ?thesis
    proof (cases "call_rpc sb (length (trace w @ evs)) ''match_company_brain_documents''")
      case RpcData
      with g assms sub [of "Some []" "company_brain_embeddings w"] show ?thesis
        by (auto simp: searchSimilarContent_def rpc_match_company_brain_documents_def io_defs
              data_or_empty_def split: if_splits)
    qed (use g assms in \<open>auto simp: searchSimilarContent_def rpc_match_company_brain_documents_def io_defs
              data_or_empty_def split: if_splits\<close>)
  next
    fix v
    assume g: "generateEmbedding rt query w =
        (Returns \<lparr>resp_embedding = v, resp_error = None\<rparr>, w\<lparr>trace := trace w @ [Fetch query]\<rparr>)"
    show ?thesis
    proof (cases "call_rpc sb (length (trace w @ [Fetch query])) ''match_company_brain_documents''")
      case RpcData
      with g assms sub [of v "company_brain_embeddings w"] show ?thesis
        by (auto simp: searchSimilarContent_def rpc_match_company_brain_documents_def io_defs
              data_or_empty_def truthy_def split: if_splits)
    qed (use g assms in \<open>auto simp: searchSimilarContent_def rpc_match_company_brain_documents_def io_defs
              data_or_empty_def truthy_def split: if_splits\<close>)
  qed
qed


text \<open>
  C4: for tenants A and B with A \<open>\<noteq>\<close> B, a record of tenant A is never among the results
  of a search issued for tenant B, whatever its similarity to the query:
  \<open>searchSimilarContent\<close> with B's user id returns no record whose \<open>user_id\<close> is A, and
  \<open>searchProjectContent\<close> with the id of a project of B (a project whose stored records
  all carry B's \<open>company_id\<close>) returns no record whose \<open>company_id\<close> is A.
\<close>

theorem search_scoping:
  assumes "tenantA \<noteq> tenantB"
  shows "(searchSimilarContent rt sb tenantB query threshold limit w = (Returns bmatches, w1)
          \<and> user_id b = tenantA
          \<longrightarrow> b \<notin> fst ` set bmatches)
       \<and> (searchProjectContent rt sb projectB query threshold limit w = (Returns pmatches, w2)
          \<and> (\<forall>x\<in>set (project_embeddings w). project_id x = projectB \<longrightarrow> company_id x = tenantB)
          \<and> company_id p = tenantA
          \<longrightarrow> p \<notin> fst ` set pmatches)"
  using assms searchSimilarContent_scope [of rt sb tenantB query threshold limit w bmatches w1 b]
    searchProjectContent_scope [of rt sb projectB query threshold limit w pmatches w2 p]
  by blast



text \<open>
  C4 on the shared tables: \<open>globex\<close> searches, both tables hold a record of \<open>acme\<close> with
  the same vector, and each search returns the record of \<open>globex\<close> only.
\<close>

theorem search_scoping_witness:
  "brain_record ''acme'' ''Company: Acme'' (Some [1, 0])
     \<notin> fst ` set [(brain_record ''globex'' ''Company: Globex'' (Some [1, 0]), 1 :: real)]
   \<and> project_record ''acme'' ''p1'' ''Project: Rocket'' (Some [1, 0])
     \<notin> fst ` set [(project_record ''globex'' ''p9'' ''Project: Reactor'' (Some [1, 0]), 1 :: real)]"
proof -
  have t: "''acme'' \<noteq> ''globex''" by simp
  have b: "searchSimilarContent picky_runtime accepting_db ''globex'' ''Who builds reactors?'' 0.78 10 shared_world
      = (Returns [(brain_record ''globex'' ''Company: Globex'' (Some [1, 0]), 1)],
         shared_world\<lparr>trace := [Fetch ''Who builds reactors?'', Rpc ''match_company_brain_documents'']\<rparr>)
    \<and> user_id (brain_record ''acme'' ''Company: Acme'' (Some [1, 0])) = ''acme''"
    by (simp add: run_defs scenario_defs match_defs)
  have p: "searchProjectContent picky_runtime accepting_db ''p9'' ''Who builds reactors?'' 0.78 10 shared_world
      = (Returns [(project_record ''globex'' ''p9'' ''Project: Reactor'' (Some [1, 0]), 1)],
         shared_world\<lparr>trace := [Fetch ''Who builds reactors?'', Rpc ''match_project_documents'']\<rparr>)
    \<and> (\<forall>x\<in>set (project_embeddings shared_world). project_id x = ''p9'' \<longrightarrow> company_id x = ''globex'')
    \<and> company_id (project_record ''acme'' ''p1'' ''Project: Rocket'' (Some [1, 0])) = ''acme''"
    by (simp add: run_defs scenario_defs match_defs)
  from search_scoping [OF t, THEN conjunct1, THEN mp, OF b]
    search_scoping [OF t, THEN conjunct2, THEN mp, OF p]
  show ?thesis by (rule conjI)
qed


text \<open>
  C1: for every key (tenant, scope, content type, content id), after two cycles of
  \<open>deleteProjectEmbeddingsByType\<close> for the scope and content type followed by
  \<open>storeProjectEmbedding\<close> of a record with the key, each call reporting success, exactly
  one record with the key is in the table, however many there were before.
\<close>

theorem refresh_leaves_one_record:
  assumes "has_key tenant scope ct cid data1" and "has_key tenant scope ct cid data2"
    and "deleteProjectEmbeddingsByType sb scope ct w0 = (Returns r1, w1)" and "success r1"
    and "storeProjectEmbedding rt sb data1 w1 = (Returns r2, w2)" and "success r2"
    and "deleteProjectEmbeddingsByType sb scope ct w2 = (Returns r3, w3)" and "success r3"
    and "storeProjectEmbedding rt sb data2 w3 = (Returns r4, w4)" and "success r4"
  shows "length (live_records tenant scope ct cid w4) = 1"
proof -
  have w3: "project_embeddings w3 =
      filter (\<lambda>r. \<not> (project_id r = scope \<and> content_type r = ct)) (project_embeddings w2)"
    using assms(7,8) by (cases rule: deleteProjectEmbeddingsByType_cases [of sb w2 scope ct]) auto
  obtain emb where w4: "project_embeddings w4 = project_embeddings w3 @ [project_row data2 emb]"
    using assms(9,10) by (cases rule: storeProjectEmbedding_cases [of data2 rt w3 sb]) auto
  have "filter (has_key tenant scope ct cid) (project_embeddings w3) = []"
    unfolding w3 by (auto simp: filter_empty_conv has_key_def)
  with w4 assms(2) show ?thesis
    by (simp add: live_records_def has_key_def project_row_def)
qed


text \<open>C1 on the shared tables, which hold the record of project \<open>p1\<close> twice.\<close>

theorem refresh_leaves_one_record_witness:
  "length (live_records ''acme'' ''p1'' project_metadata (Some ''p1'')
     (snd (storeProjectEmbedding picky_runtime accepting_db (project_record ''acme'' ''p1'' ''Project: Rocket 3'' None)
        (snd (deleteProjectEmbeddingsByType accepting_db ''p1'' project_metadata
           (snd (storeProjectEmbedding picky_runtime accepting_db (project_record ''acme'' ''p1'' ''Project: Rocket 2'' None)
              (snd (deleteProjectEmbeddingsByType accepting_db ''p1'' project_metadata shared_world))))))))) = 1"
proof -
  let ?d1 = "project_record ''acme'' ''p1'' ''Project: Rocket 2'' None"
  let ?d2 = "project_record ''acme'' ''p1'' ''Project: Rocket 3'' None"
  let ?ok = "\<lparr>success = True, error = None\<rparr>"
  let ?w1 = "snd (deleteProjectEmbeddingsByType accepting_db ''p1'' project_metadata shared_world)"
  let ?w2 = "snd (storeProjectEmbedding picky_runtime accepting_db ?d1 ?w1)"
  let ?w3 = "snd (deleteProjectEmbeddingsByType accepting_db ''p1'' project_metadata ?w2)"
  let ?w4 = "snd (storeProjectEmbedding picky_runtime accepting_db ?d2 ?w3)"
  have k1: "has_key ''acme'' ''p1'' project_metadata (Some ''p1'') ?d1"
    and k2: "has_key ''acme'' ''p1'' project_metadata (Some ''p1'') ?d2"
    by (simp_all add: has_key_def scenario_defs)
  have s1: "deleteProjectEmbeddingsByType accepting_db ''p1'' project_metadata shared_world = (Returns ?ok, ?w1)"
    by (simp add: run_defs scenario_defs)
  have s2: "storeProjectEmbedding picky_runtime accepting_db ?d1 ?w1 = (Returns ?ok, ?w2)"
    by (simp add: run_defs scenario_defs)
  have s3: "deleteProjectEmbeddingsByType accepting_db ''p1'' project_metadata ?w2 = (Returns ?ok, ?w3)"
    by (simp add: run_defs scenario_defs)
  have s4: "storeProjectEmbedding picky_runtime accepting_db ?d2 ?w3 = (Returns ?ok, ?w4)"
    by (simp add: run_defs scenario_defs)
  have ok: "success ?ok" by simp
  show ?thesis
    by (rule refresh_leaves_one_record [OF k1 k2 s1 ok s2 ok s3 ok s4 ok])
qed


lemma storeProjectEmbedding_answers:
  "answers (storeProjectEmbedding rt sb pdata) w
     (vector_available rt (embedding pdata) (content pdata) w
      \<and> insert_project_embeddings sb
           (length (trace (snd (vector_for rt (embedding pdata) (content pdata) w))))
           (project_row pdata (fst (vector_for rt (embedding pdata) (content pdata) w))) = DbOk)
     (\<lambda>w'. project_embeddings w' =
        project_embeddings w @ [project_row pdata (fst (vector_for rt (embedding pdata) (content pdata) w))])"
proof (cases "embedding pdata")
  case (Some v)
  then show ?thesis
    by (cases "insert_project_embeddings sb (length (trace w)) (project_row pdata (Some v))")
       (simp_all add: answers_def vector_for_def vector_available_def storeProjectEmbedding_def
          embedding_or_generate_def insert_into_project_embeddings_def io_defs project_row_def)
next
  case None
  show ?thesis
  proof (rule generateEmbedding_cases [of rt "content pdata" w])
    fix m evs
    assume g: "generateEmbedding rt (content pdata) w =
        (Returns \<lparr>resp_embedding = Some [], resp_error = Some m\<rparr>, w\<lparr>trace := trace w @ evs\<rparr>)"
    show ?thesis
    proof (cases "m = []")
      case True
      with None g show ?thesis
        by (cases "insert_project_embeddings sb (length (trace w) + length evs) (project_row pdata (Some []))")
           (simp_all add: answers_def vector_for_def vector_available_def client_fails_def truthy_def
              storeProjectEmbedding_def embedding_or_generate_def insert_into_project_embeddings_def
              io_defs project_row_def)
    next
      case False
      with None g show ?thesis
        by (simp add: answers_def vector_for_def vector_available_def client_fails_def truthy_def
              storeProjectEmbedding_def embedding_or_generate_def io_defs)
    qed
  next
    fix v
    assume g: "generateEmbedding rt (content pdata) w =
        (Returns \<lparr>resp_embedding = v, resp_error = None\<rparr>, w\<lparr>trace := trace w @ [Fetch (content pdata)]\<rparr>)"
    with None show ?thesis
      by (cases "insert_project_embeddings sb (Suc (length (trace w))) (project_row pdata v)")
         (simp_all add: answers_def vector_for_def vector_available_def client_fails_def truthy_def
            storeProjectEmbedding_def embedding_or_generate_def insert_into_project_embeddings_def
            io_defs project_row_def)
  qed
qed

lemma storeEmbedding_answers:
  "answers (storeEmbedding rt sb bdata) w
     (vector_available rt (embedding bdata) (content bdata) w
      \<and> insert_company_brain_embeddings sb
           (length (trace (snd (vector_for rt (embedding bdata) (content bdata) w))))
           (brain_row bdata (fst (vector_for rt (embedding bdata) (content bdata) w))) = DbOk)
     (\<lambda>w'. company_brain_embeddings w' =
        company_brain_embeddings w @ [brain_row bdata (fst (vector_for rt (embedding bdata) (content bdata) w))])"
proof (cases "embedding bdata")
  case (Some v)
  then show ?thesis
    by (cases "insert_company_brain_embeddings sb (length (trace w)) (brain_row bdata (Some v))")
       (simp_all add: answers_def vector_for_def vector_available_def storeEmbedding_def
          embedding_or_generate_def insert_into_company_brain_embeddings_def io_defs brain_row_def)
next
  case None
  show ?thesis
  proof (rule generateEmbedding_cases [of rt "content bdata" w])
    fix m evs
    assume g: "generateEmbedding rt (content bdata) w =
        (Returns \<lparr>resp_embedding = Some [], resp_error = Some m\<rparr>, w\<lparr>trace := trace w @ evs\<rparr>)"
    show ?thesis
    proof (cases "m = []")
      case True
      with None g show ?thesis
        by (cases "insert_company_brain_embeddings sb (length (trace w) + length evs) (brain_row bdata (Some []))")
           (simp_all add: answers_def vector_for_def vector_available_def client_fails_def truthy_def
              storeEmbedding_def embedding_or_generate_def insert_into_company_brain_embeddings_def
              io_defs brain_row_def)
    next
      case False
      with None g show ?thesis
        by (simp add: answers_def vector_for_def vector_available_def client_fails_def truthy_def
              storeEmbedding_def embedding_or_generate_def io_defs)
    qed
  next
    fix v
    assume g: "generateEmbedding rt (content bdata) w =
        (Returns \<lparr>resp_embedding = v, resp_error = None\<rparr>, w\<lparr>trace := trace w @ [Fetch (content bdata)]\<rparr>)"
    with None show ?thesis
      by (cases "insert_company_brain_embeddings sb (Suc (length (trace w))) (brain_row bdata v)")
         (simp_all add: answers_def vector_for_def vector_available_def client_fails_def truthy_def
            storeEmbedding_def embedding_or_generate_def insert_into_company_brain_embeddings_def
            io_defs brain_row_def)
  qed
qed

lemma deleteProjectEmbeddings_answers:
  "answers (deleteProjectEmbeddings sb projectId) w
     (delete_rows sb (length (trace w)) ''project_embeddings'' = DbOk)
     (\<lambda>w'. project_embeddings w' = filter (\<lambda>r. project_id r \<noteq> projectId) (project_embeddings w))"
  by (cases rule: deleteProjectEmbeddings_cases [of sb w projectId]) (auto simp: answers_def)

lemma deleteProjectEmbeddingsByType_answers:
  "answers (deleteProjectEmbeddingsByType sb projectId contentType) w
     (delete_rows sb (length (trace w)) ''project_embeddings'' = DbOk)
     (\<lambda>w'. project_embeddings w' =
        filter (\<lambda>r. \<not> (project_id r = projectId \<and> content_type r = contentType)) (project_embeddings w))"
  by (cases rule: deleteProjectEmbeddingsByType_cases [of sb w projectId contentType])
     (auto simp: answers_def)

text \<open>
  C10: \<open>storeEmbedding\<close>, \<open>storeProjectEmbedding\<close>, \<open>deleteProjectEmbeddings\<close> and
  \<open>deleteProjectEmbeddingsByType\<close> never throw, whatever the input, the runtime and the
  database answer. A store returns \<open>{ success: true }\<close>, with the row in the table, when
  a vector is available (the caller's, or the client did not fail) and the database
  accepts the insert; a delete returns \<open>{ success: true }\<close>, with the rows gone, when the
  database accepts the delete. In every other case (no provider key, provider error,
  an error reply or a throw of the database) they return \<open>{ success: false, error: m }\<close>
  with a message \<open>m\<close>.
\<close>

theorem store_and_delete_total:
  "answers (storeEmbedding rt sb bdata) w
     (vector_available rt (embedding bdata) (content bdata) w
      \<and> insert_company_brain_embeddings sb
           (length (trace (snd (vector_for rt (embedding bdata) (content bdata) w))))
           (brain_row bdata (fst (vector_for rt (embedding bdata) (content bdata) w))) = DbOk)
     (\<lambda>w'. company_brain_embeddings w' =
        company_brain_embeddings w @ [brain_row bdata (fst (vector_for rt (embedding bdata) (content bdata) w))])
   \<and> answers (storeProjectEmbedding rt sb pdata) w
     (vector_available rt (embedding pdata) (content pdata) w
      \<and> insert_project_embeddings sb
           (length (trace (snd (vector_for rt (embedding pdata) (content pdata) w))))
           (project_row pdata (fst (vector_for rt (embedding pdata) (content pdata) w))) = DbOk)
     (\<lambda>w'. project_embeddings w' =
        project_embeddings w @ [project_row pdata (fst (vector_for rt (embedding pdata) (content pdata) w))])
   \<and> answers (deleteProjectEmbeddings sb projectId) w
     (delete_rows sb (length (trace w)) ''project_embeddings'' = DbOk)
     (\<lambda>w'. project_embeddings w' = filter (\<lambda>r. project_id r \<noteq> projectId) (project_embeddings w))
   \<and> answers (deleteProjectEmbeddingsByType sb projectId contentType) w
     (delete_rows sb (length (trace w)) ''project_embeddings'' = DbOk)
     (\<lambda>w'. project_embeddings w' =
        filter (\<lambda>r. \<not> (project_id r = projectId \<and> content_type r = contentType)) (project_embeddings w))"
  by (intro conjI storeEmbedding_answers storeProjectEmbedding_answers
        deleteProjectEmbeddings_answers deleteProjectEmbeddingsByType_answers)

text \<open>
  C10 on five runs: a store and the two deletes against a provider and a database that
  work, which return \<open>{ success: true }\<close> with the row stored and the rows deleted; a
  store whose text the provider rejects and a store whose vector the database refuses,
  which return \<open>{ success: false, error: m }\<close>.
\<close>

theorem store_and_delete_total_witness:
  "answers (storeEmbedding picky_runtime accepting_db (brain_record ''acme'' ''Company: Acme'' None))
     shared_world True
     (\<lambda>w'. company_brain_embeddings w' =
        company_brain_embeddings shared_world @ [brain_record ''acme'' ''Company: Acme'' (Some [1, 0])])
   \<and> answers (deleteProjectEmbeddings accepting_db ''p1'') shared_world True
     (\<lambda>w'. project_embeddings w' = [project_record ''globex'' ''p9'' ''Project: Reactor'' (Some [1, 0])])
   \<and> answers (deleteProjectEmbeddingsByType accepting_db ''p1'' project_metadata) shared_world True
     (\<lambda>w'. project_embeddings w' = [project_record ''globex'' ''p9'' ''Project: Reactor'' (Some [1, 0])])
   \<and> answers (storeProjectEmbedding picky_runtime accepting_db
                (project_record ''acme'' ''p1'' ''Project: Broken'' None))
     shared_world False (\<lambda>w'. True)
   \<and> answers (storeEmbedding picky_runtime (documented_db 768)
                (brain_record ''acme'' ''Company: Acme'' (Some [1, 0, 0])))
     shared_world False (\<lambda>w'. True)"
proof -
  note t = store_and_delete_total
  have a: "answers (storeEmbedding picky_runtime accepting_db (brain_record ''acme'' ''Company: Acme'' None))
     shared_world True
     (\<lambda>w'. company_brain_embeddings w' =
        company_brain_embeddings shared_world @ [brain_record ''acme'' ''Company: Acme'' (Some [1, 0])])"
    using t [THEN conjunct1, of picky_runtime accepting_db "brain_record ''acme'' ''Company: Acme'' None" shared_world]
    by (simp add: vector_available_def vector_for_def client_fails_def brain_row_def
          generateEmbedding_def generateEmbedding_try_def truthy_def io_defs scenario_defs)
  have b: "answers (deleteProjectEmbeddings accepting_db ''p1'') shared_world True
     (\<lambda>w'. project_embeddings w' = [project_record ''globex'' ''p9'' ''Project: Reactor'' (Some [1, 0])])"
    using t [THEN conjunct2, THEN conjunct2, THEN conjunct1, of accepting_db "''p1''" shared_world]
    by (simp add: scenario_defs)
  have c: "answers (deleteProjectEmbeddingsByType accepting_db ''p1'' project_metadata) shared_world True
     (\<lambda>w'. project_embeddings w' = [project_record ''globex'' ''p9'' ''Project: Reactor'' (Some [1, 0])])"
    using t [THEN conjunct2, THEN conjunct2, THEN conjunct2, of accepting_db "''p1''" project_metadata shared_world]
    by (simp add: scenario_defs)
  have d: "answers (storeProjectEmbedding picky_runtime accepting_db
                (project_record ''acme'' ''p1'' ''Project: Broken'' None))
     shared_world False (\<lambda>w'. True)"
    using t [THEN conjunct2, THEN conjunct1, of picky_runtime accepting_db "project_record ''acme'' ''p1'' ''Project: Broken'' None" shared_world]
    by (simp add: answers_def vector_available_def client_fails_def
          generateEmbedding_def generateEmbedding_try_def truthy_def error_message_def io_defs scenario_defs)
  have e: "answers (storeEmbedding picky_runtime (documented_db 768)
                (brain_record ''acme'' ''Company: Acme'' (Some [1, 0, 0])))
     shared_world False (\<lambda>w'. True)"
    using t [THEN conjunct1, of picky_runtime "documented_db 768" "brain_record ''acme'' ''Company: Acme'' (Some [1, 0, 0])" shared_world]
    by (simp add: answers_def vector_available_def vector_for_def brain_row_def documented_db_def scenario_defs)
  from a b c d e show ?thesis by (intro conjI)
qed

text \<open>
  The store functions check no length themselves; the length of the vectors is the same
  across the records as far as the tables enforce it: when the tables accept a row with
  a vector only if the vector has length \<open>d\<close>, and every row with a vector has one of
  length \<open>d\<close>, then so it is after \<open>storeProjectEmbedding\<close> and after \<open>storeEmbedding\<close>.
  The columns declared \<open>vector(d)\<close> are such tables, and they refuse a record whose
  vector has another length: the store returns the failure and nothing is stored.
\<close>

lemma length_enforced_by_table:
  "(tables_enforce sb d \<and> uniform d (project_embeddings w)
      \<longrightarrow> uniform d (project_embeddings (snd (storeProjectEmbedding rt sb pdata w))))
   \<and> (tables_enforce sb d \<and> uniform d (company_brain_embeddings w)
      \<longrightarrow> uniform d (company_brain_embeddings (snd (storeEmbedding rt sb bdata w))))"
proof (intro conjI impI)
  assume "tables_enforce sb d \<and> uniform d (project_embeddings w)"
  then show "uniform d (project_embeddings (snd (storeProjectEmbedding rt sb pdata w)))"
    by (cases rule: storeProjectEmbedding_cases [of pdata rt w sb])
       (auto simp: uniform_def tables_enforce_def)
next
  assume "tables_enforce sb d \<and> uniform d (company_brain_embeddings w)"
  then show "uniform d (company_brain_embeddings (snd (storeEmbedding rt sb bdata w)))"
    by (cases rule: storeEmbedding_cases [of bdata rt w sb])
       (auto simp: uniform_def tables_enforce_def)
qed

lemma documented_db_enforces: "tables_enforce (documented_db d) d"
  by (auto simp: tables_enforce_def documented_db_def split: option.splits if_splits)

lemma other_length_refused:
  "storeProjectEmbedding picky_runtime (documented_db 768)
       (project_record ''acme'' ''p1'' ''Project: Rocket'' (Some [1, 0, 0])) empty_world
     = (Returns \<lparr>success = False, error = Some ''different vector dimensions''\<rparr>,
        \<lparr>project_embeddings = [], company_brain_embeddings = [],
         trace = [Insert ''project_embeddings'', ConsoleError ''Error storing project embedding:'']\<rparr>)"
  by (simp add: run_defs scenario_defs documented_db_def)

text \<open>
  C9: every record inserted by the store operations has an embedding vector of the one
  configured length. Vectors of another length are kept out by the tables
  (\<open>length_enforced_by_table\<close>, \<open>documented_db_enforces\<close>, \<open>other_length_refused\<close>), but a
  record can be inserted with no vector at all: when the provider answers with status
  200 and an \<open>embedding\<close> object without \<open>values\<close>, \<open>generateEmbedding\<close> reports no error,
  and \<open>storeEmbedding\<close> and \<open>storeProjectEmbedding\<close> insert the row without vector into a
  table whose other rows have vectors of length 768, and return \<open>{ success: true }\<close>.
\<close>

theorem store_inserts_row_without_vector:
  "map (\<lambda>r. map_option length (embedding r))
     (company_brain_embeddings
        (snd (storeEmbedding valueless_runtime (documented_db 768)
                (brain_record ''acme'' ''Company: Acme'' None)
                \<lparr>project_embeddings = [],
                 company_brain_embeddings =
                   [brain_record ''globex'' ''Company: Globex'' (Some (replicate 768 0))],
                 trace = []\<rparr>)))
     = [Some 768, None]
   \<and> map (\<lambda>r. map_option length (embedding r))
     (project_embeddings
        (snd (storeProjectEmbedding valueless_runtime (documented_db 768)
                (project_record ''acme'' ''p1'' ''Project: Rocket'' None)
                \<lparr>project_embeddings =
                   [project_record ''globex'' ''p9'' ''Project: Reactor'' (Some (replicate 768 0))],
                 company_brain_embeddings = [],
                 trace = []\<rparr>)))
     = [Some 768, None]
   \<and> fst (storeEmbedding valueless_runtime (documented_db 768)
            (brain_record ''acme'' ''Company: Acme'' None)
            \<lparr>project_embeddings = [],
             company_brain_embeddings =
               [brain_record ''globex'' ''Company: Globex'' (Some (replicate 768 0))],
             trace = []\<rparr>)
     = Returns \<lparr>success = True, error = None\<rparr>"
  by (simp add: run_defs scenario_defs valueless_runtime_def documented_db_def)

section \<open>Properties of the regeneration jobs\<close>

lemma for_each_throws:
  assumes "for_each f earlier s w = (Returns s1, w1)" and "f x s1 w1 = (Throws e, w2)"
  shows "for_each f (earlier @ x # later) s w = (Throws e, w2)"
  using assms
proof (induction earlier arbitrary: s w)
  case Nil
  then show ?case by (simp add: return_io_def bind_io_def)
next
  case (Cons y ys)
  show ?case
  proof (cases "f y s w")
    case (Pair r w')
    show ?thesis
    proof (cases r)
      case (Returns s')
      with Pair Cons.prems have "for_each f ys s' w' = (Returns s1, w1)"
        by (simp add: bind_io_def)
      from Cons.IH [OF this Cons.prems(2)] Pair Returns show ?thesis
        by (simp add: bind_io_def)
    next
      case (Throws e')
      with Pair Cons.prems show ?thesis by (simp add: bind_io_def)
    qed
  qed
qed


lemmas job_defs = regenerate_project_embeddings_def regenerate_project_embeddings_try_def
  regenerate_project_def regenerate_project_metadata_def regenerate_project_document_def
  regenerate_embeddings_def regenerate_embeddings_try_def regenerate_brain_def
  regenerate_brain_document_def regenerate_additional_context_def regenerate_chunk_def
  from_projects_def from_project_metadata_def from_project_documents_def
  from_company_brain_def from_brain_documents_def select_io_def
  delete_from_project_embeddings_def insert_into_project_embeddings_def
  delete_from_company_brain_embeddings_def insert_into_company_brain_embeddings_def
  edge_generateEmbedding_def prepareProjectMetadataForEmbedding_def project_document_content_def
  prepareCompanyInfoForEmbedding_def brain_document_content_def
  lines_def labelled_def labelled_list_def json_string_def json_strings_def
  data_or_empty_def truthy_def error_message_def

text \<open>
  C5, as stated: a failure while processing one entity does not abort the sweep; the
  remaining entities are processed and the job returns its counts. It fails: the provider
  rejects the text of the first of two projects, the job answers with status 500 and the
  error message, and the second project is never looked at.
\<close>

theorem sweep_aborted_counterexample:
  "regenerate_project_embeddings cron_request picky_runtime accepting_db empty_world =
     (Returns \<lparr>status = 500, body = ErrorBody ''Gemini API error: Internal Server Error''\<rparr>,
      \<lparr>project_embeddings = [], company_brain_embeddings = [],
       trace = [ConsoleLog ''Starting project embedding regeneration...'', Select ''projects'',
                ConsoleLog ''Processing project: Broken'', Select ''project_metadata'',
                Delete ''project_embeddings'', Fetch ''Project: Broken'',
                ConsoleError ''Error regenerating project embeddings:'']\<rparr>)"
  by (simp add: job_defs scenario_defs cron_request_def io_defs)

text \<open>
  C5, amended: in the batch regeneration jobs a failure thrown while processing one
  entity (a project with its metadata and documents, a company-brain row, a document) is
  caught and logged by the handler's one outer \<open>try\<close>/\<open>catch\<close>, which ends the sweep: for
  an authorised request with the provider key configured, when the entities before have
  been processed and processing this one throws \<open>e\<close>, the handler does not throw, writes
  the error to the console and answers with status 500 and the message of \<open>e\<close> in place of
  the counts; the world is as the failing entity left it, so the entities after it are
  not processed.
\<close>

theorem thrown_failure_ends_sweep:
  assumes "http_method req \<noteq> ''OPTIONS''" and "truthy (authorization req)"
    and "truthy (GEMINI_API_KEY rt)" and "createClient rt = None"
  shows "(select_projects sb (Suc (length (trace w))) = SelectData (Some (earlier @ project # later))
          \<and> for_each (regenerate_project rt sb) earlier (0, 0)
                (emit (Select ''projects'')
                   (emit (ConsoleLog ''Starting project embedding regeneration...'') w))
              = (Returns counts, w1)
          \<and> regenerate_project rt sb project counts w1 = (Throws e, w2)
          \<longrightarrow> regenerate_project_embeddings req rt sb w
              = (Returns \<lparr>status = 500, body = ErrorBody (error_message e)\<rparr>,
                 emit (ConsoleError ''Error regenerating project embeddings:'') w2))
       \<and> (select_company_brain sb (Suc (length (trace w))) = SelectData (Some (earlier_b @ brain # later_b))
          \<and> for_each (regenerate_brain rt sb) earlier_b ()
                (emit (Select ''company_brain'')
                   (emit (ConsoleLog ''Starting embedding regeneration...'') w))
              = (Returns (), v1)
          \<and> regenerate_brain rt sb brain () v1 = (Throws e', v2)
          \<longrightarrow> regenerate_embeddings req rt sb w
              = (Returns \<lparr>status = 500, body = ErrorBody (error_message e')\<rparr>,
                 emit (ConsoleError ''Error regenerating embeddings:'') v2))
       \<and> (select_company_brain sb (Suc (length (trace w))) = SelectData (Some brains)
          \<and> for_each (regenerate_brain rt sb) brains ()
                (emit (Select ''company_brain'')
                   (emit (ConsoleLog ''Starting embedding regeneration...'') w))
              = (Returns (), u1)
          \<and> select_brain_documents sb (length (trace u1)) = SelectData (Some (earlier_d @ doc # later_d))
          \<and> for_each (regenerate_brain_document rt sb) earlier_d () (emit (Select ''brain_documents'') u1)
              = (Returns (), u2)
          \<and> regenerate_brain_document rt sb doc () u2 = (Throws e'', u3)
          \<longrightarrow> regenerate_embeddings req rt sb w
              = (Returns \<lparr>status = 500, body = ErrorBody (error_message e'')\<rparr>,
                 emit (ConsoleError ''Error regenerating embeddings:'') u3))"
proof (intro conjI impI)
  assume a: "select_projects sb (Suc (length (trace w))) = SelectData (Some (earlier @ project # later))
          \<and> for_each (regenerate_project rt sb) earlier (0, 0)
                (emit (Select ''projects'')
                   (emit (ConsoleLog ''Starting project embedding regeneration...'') w))
              = (Returns counts, w1)
          \<and> regenerate_project rt sb project counts w1 = (Throws e, w2)"
  then have "for_each (regenerate_project rt sb) (earlier @ project # later) (0, 0)
                (emit (Select ''projects'')
                   (emit (ConsoleLog ''Starting project embedding regeneration...'') w))
              = (Throws e, w2)"
    by (intro for_each_throws [of _ _ _ _ counts w1]) simp_all
  with a assms show "regenerate_project_embeddings req rt sb w
              = (Returns \<lparr>status = 500, body = ErrorBody (error_message e)\<rparr>,
                 emit (ConsoleError ''Error regenerating project embeddings:'') w2)"
    by (simp add: regenerate_project_embeddings_def regenerate_project_embeddings_try_def
          from_projects_def select_io_def data_or_empty_def io_defs)
next
  assume a: "select_company_brain sb (Suc (length (trace w))) = SelectData (Some (earlier_b @ brain # later_b))
          \<and> for_each (regenerate_brain rt sb) earlier_b ()
                (emit (Select ''company_brain'')
                   (emit (ConsoleLog ''Starting embedding regeneration...'') w))
              = (Returns (), v1)
          \<and> regenerate_brain rt sb brain () v1 = (Throws e', v2)"
  then have "for_each (regenerate_brain rt sb) (earlier_b @ brain # later_b) ()
                (emit (Select ''company_brain'')
                   (emit (ConsoleLog ''Starting embedding regeneration...'') w))
              = (Throws e', v2)"
    by (intro for_each_throws [of _ _ _ _ "()" v1]) simp_all
  with a assms show "regenerate_embeddings req rt sb w
              = (Returns \<lparr>status = 500, body = ErrorBody (error_message e')\<rparr>,
                 emit (ConsoleError ''Error regenerating embeddings:'') v2)"
    by (simp add: regenerate_embeddings_def regenerate_embeddings_try_def
          from_company_brain_def select_io_def data_or_empty_def io_defs)
next
  assume a: "select_company_brain sb (Suc (length (trace w))) = SelectData (Some brains)
          \<and> for_each (regenerate_brain rt sb) brains ()
                (emit (Select ''company_brain'')
                   (emit (ConsoleLog ''Starting embedding regeneration...'') w))
              = (Returns (), u1)
          \<and> select_brain_documents sb (length (trace u1)) = SelectData (Some (earlier_d @ doc # later_d))
          \<and> for_each (regenerate_brain_document rt sb) earlier_d () (emit (Select ''brain_documents'') u1)
              = (Returns (), u2)
          \<and> regenerate_brain_document rt sb doc () u2 = (Throws e'', u3)"
  then have "for_each (regenerate_brain_document rt sb) (earlier_d @ doc # later_d) ()
                (emit (Select ''brain_documents'') u1) = (Throws e'', u3)"
    by (intro for_each_throws [of _ _ _ _ "()" u2]) simp_all
  with a assms show "regenerate_embeddings req rt sb w
              = (Returns \<lparr>status = 500, body = ErrorBody (error_message e'')\<rparr>,
                 emit (ConsoleError ''Error regenerating embeddings:'') u3)"
    by (simp add: regenerate_embeddings_def regenerate_embeddings_try_def
          from_company_brain_def from_brain_documents_def select_io_def data_or_empty_def io_defs)
qed


text \<open>
  C5, amended, on three runs: the provider rejects the text of the first project, of the
  first company brain, and of the first document.
\<close>

theorem thrown_failure_ends_sweep_witness:
  "regenerate_project_embeddings cron_request picky_runtime accepting_db empty_world =
     (Returns \<lparr>status = 500, body = ErrorBody ''Gemini API error: Internal Server Error''\<rparr>,
      emit (ConsoleError ''Error regenerating project embeddings:'')
        (snd (regenerate_project picky_runtime accepting_db (named_project ''p1'' ''Broken'') (0, 0)
           (emit (Select ''projects'')
              (emit (ConsoleLog ''Starting project embedding regeneration...'') empty_world)))))
   \<and> regenerate_embeddings cron_request picky_runtime accepting_db empty_world =
     (Returns \<lparr>status = 500, body = ErrorBody ''Gemini API error: Internal Server Error''\<rparr>,
      emit (ConsoleError ''Error regenerating embeddings:'')
        (snd (regenerate_brain picky_runtime accepting_db (named_brain ''u1'' ''Broken'') ()
           (emit (Select ''company_brain'')
              (emit (ConsoleLog ''Starting embedding regeneration...'') empty_world)))))
   \<and> regenerate_embeddings cron_request picky_runtime documents_db empty_world =
     (Returns \<lparr>status = 500, body = ErrorBody ''Gemini API error: Internal Server Error''\<rparr>,
      emit (ConsoleError ''Error regenerating embeddings:'')
        (snd (regenerate_brain_document picky_runtime documents_db (named_document ''d1'' ''broken.pdf'') ()
           (emit (Select ''brain_documents'')
              (snd (for_each (regenerate_brain picky_runtime documents_db) [named_brain ''u2'' ''Healthy''] ()
                 (emit (Select ''company_brain'')
                    (emit (ConsoleLog ''Starting embedding regeneration...'') empty_world))))))))"
proof -
  let ?e = "ErrorObj ''Gemini API error: Internal Server Error''"
  let ?p0 = "emit (Select ''projects'')
               (emit (ConsoleLog ''Starting project embedding regeneration...'') empty_world)"
  let ?b0 = "emit (Select ''company_brain'')
               (emit (ConsoleLog ''Starting embedding regeneration...'') empty_world)"
  let ?u1 = "snd (for_each (regenerate_brain picky_runtime documents_db) [named_brain ''u2'' ''Healthy''] () ?b0)"
  have pre: "http_method cron_request \<noteq> ''OPTIONS''" "truthy (authorization cron_request)"
    "truthy (GEMINI_API_KEY picky_runtime)" "createClient picky_runtime = None"
    by (simp_all add: scenario_defs cron_request_def truthy_def)
  have p: "select_projects accepting_db (Suc (length (trace empty_world)))
        = SelectData (Some ([] @ named_project ''p1'' ''Broken'' # [named_project ''p2'' ''Healthy'']))
      \<and> for_each (regenerate_project picky_runtime accepting_db) [] (0, 0) ?p0 = (Returns (0, 0), ?p0)
      \<and> regenerate_project picky_runtime accepting_db (named_project ''p1'' ''Broken'') (0, 0) ?p0
        = (Throws ?e, snd (regenerate_project picky_runtime accepting_db (named_project ''p1'' ''Broken'') (0, 0) ?p0))"
    by (simp add: job_defs scenario_defs documents_db_def named_document_def io_defs)
  have b: "select_company_brain accepting_db (Suc (length (trace empty_world)))
        = SelectData (Some ([] @ named_brain ''u1'' ''Broken'' # [named_brain ''u2'' ''Healthy'']))
      \<and> for_each (regenerate_brain picky_runtime accepting_db) [] () ?b0 = (Returns (), ?b0)
      \<and> regenerate_brain picky_runtime accepting_db (named_brain ''u1'' ''Broken'') () ?b0
        = (Throws ?e, snd (regenerate_brain picky_runtime accepting_db (named_brain ''u1'' ''Broken'') () ?b0))"
    by (simp add: job_defs scenario_defs documents_db_def named_document_def io_defs)
  have d: "select_company_brain documents_db (Suc (length (trace empty_world)))
        = SelectData (Some [named_brain ''u2'' ''Healthy''])
      \<and> for_each (regenerate_brain picky_runtime documents_db) [named_brain ''u2'' ''Healthy''] () ?b0
        = (Returns (), ?u1)
      \<and> select_brain_documents documents_db (length (trace ?u1))
        = SelectData (Some ([] @ named_document ''d1'' ''broken.pdf'' # [named_document ''d2'' ''healthy.pdf'']))
      \<and> for_each (regenerate_brain_document picky_runtime documents_db) [] () (emit (Select ''brain_documents'') ?u1)
        = (Returns (), emit (Select ''brain_documents'') ?u1)
      \<and> regenerate_brain_document picky_runtime documents_db (named_document ''d1'' ''broken.pdf'') ()
          (emit (Select ''brain_documents'') ?u1)
        = (Throws ?e, snd (regenerate_brain_document picky_runtime documents_db
                             (named_document ''d1'' ''broken.pdf'') () (emit (Select ''brain_documents'') ?u1)))"
    by (simp add: job_defs scenario_defs documents_db_def named_document_def io_defs)
  note t = thrown_failure_ends_sweep [OF pre]
  from t [THEN conjunct1, THEN mp, OF p]
    t [THEN conjunct2, THEN conjunct1, THEN mp, OF b]
    t [THEN conjunct2, THEN conjunct2, THEN mp, OF d]
  show ?thesis by (simp add: error_message_def)
qed

end
